theory Spec2Isabelle
  imports Main "HOL-Library.Word"
begin

section \<open>Go values\<close>

text \<open>
  The library is three Go files: the object model that renders outbound messages
  (\<^verbatim>\<open>Source\<close> methods), the sender that posts them, and the webhook that turns
  inbound callbacks into events. Each function of the source is one HOL function with
  the source's name; a method \<^verbatim>\<open>T.Source\<close> is \<open>T_Source\<close>.

  A Go \<^verbatim>\<open>error\<close> is known to the code only through its message
  (\<^verbatim>\<open>errors.New\<close>, the errors of the standard library) or is the library's own
  \<^verbatim>\<open>*fbError\<close>.
\<close>

record fbError =
  err_Message :: string
  err_Type :: string
  err_Code :: int
  err_ErrorSubcode :: int
  err_FBTraceID :: string

datatype error = ErrorString string | FbError fbError

text \<open>
  A call that does not return a value either panics (the run-time panic of a nil
  dereference) or returns a non-nil \<^verbatim>\<open>error\<close>.
\<close>

datatype fault = NilDereference | Error error

text \<open>
  The tree a \<^verbatim>\<open>Source\<close> method returns as \<^verbatim>\<open>interface{}\<close>: strings (also the
  named string types), booleans, slices \<^verbatim>\<open>[]interface{}\<close> and maps with string keys.
  A slice is \<open>None\<close> while it is the nil slice that \<^verbatim>\<open>var s []interface{}\<close> declares;
  \<^verbatim>\<open>append\<close> makes it a list.
\<close>

datatype src = VString string | VBool bool | VSlice "src list option"
  | VMap "string \<Rightarrow> src option"

definition go_append :: "'a list option \<Rightarrow> 'a \<Rightarrow> 'a list option" where
  "go_append s x = (case s of None \<Rightarrow> Some [x] | Some xs \<Rightarrow> Some (xs @ [x]))"

text \<open>
  A method call through an interface value or a pointer that may be nil (\<open>None\<close>).
  A call on the nil interface panics. A call through a nil pointer enters the method,
  and the method panics at the first field of the receiver it reads: every
  \<^verbatim>\<open>Source\<close> method with a pointer receiver reads one before anything else, but for
  those of the field-less \<^verbatim>\<open>ShareButton\<close> and \<^verbatim>\<open>AccountUnlinkButton\<close>.
\<close>

definition call :: "('a \<Rightarrow> fault + 'b) \<Rightarrow> 'a option \<Rightarrow> fault + 'b" where
  "call f p = (case p of None \<Rightarrow> Inl NilDereference | Some x \<Rightarrow> f x)"

text \<open>
  The loop shared by every list-rendering method:
  \<^verbatim>\<open>for _, x := range xs { s, err := x.Source(); if err != nil { return nil, err }; acc = append(acc, s) }\<close>.
  A list of the source (a slice that is only ranged over and measured) is a HOL list:
  the nil and the empty slice behave alike there.
\<close>

fun Source_each :: "('a \<Rightarrow> fault + src) \<Rightarrow> 'a list \<Rightarrow> src list option
    \<Rightarrow> fault + src list option" where
  "Source_each f [] acc = Inr acc"
| "Source_each f (x # xs) acc =
     (case f x of Inl e \<Rightarrow> Inl e | Inr s \<Rightarrow> Source_each f xs (go_append acc s))"

text \<open>
  What \<^verbatim>\<open>encoding/json\<close> writes for such a tree, as far as the shapes above go:
  a nil slice is \<^verbatim>\<open>null\<close>, any other slice an array, a map an object. The same
  type is the generic value \<^verbatim>\<open>encoding/json\<close> decodes into an \<^verbatim>\<open>interface{}\<close>
  (numbers are \<^verbatim>\<open>float64\<close> there, a later duplicate key replaces an earlier one).
  The contents of a string are kept as they are; \<^verbatim>\<open>encoding/json\<close> escapes them
  and replaces invalid UTF-8, which nothing below looks at.
\<close>

typedecl float64

datatype json = JNull | JBool bool | JNumber float64 | JString string
  | JArray "json list" | JObject "string \<Rightarrow> json option"

primrec marshal :: "src \<Rightarrow> json" where
  "marshal (VString s) = JString s"
| "marshal (VBool b) = JBool b"
| "marshal (VSlice xs) =
     (case map_option (map marshal) xs of None \<Rightarrow> JNull | Some ys \<Rightarrow> JArray ys)"
| "marshal (VMap m) = JObject (\<lambda>k. map_option marshal (m k))"

definition field :: "src \<Rightarrow> string \<Rightarrow> src option" where
  "field v k = (case v of VMap m \<Rightarrow> m k | _ \<Rightarrow> None)"

definition jfield :: "json \<Rightarrow> string \<Rightarrow> json option" where
  "jfield v k = (case v of JObject m \<Rightarrow> m k | _ \<Rightarrow> None)"

text \<open>The value found by following a path of keys from the root of a tree.\<close>

fun src_at :: "src \<Rightarrow> string list \<Rightarrow> src option" where
  "src_at v [] = Some v"
| "src_at v (k # ks) = (case field v k of None \<Rightarrow> None | Some c \<Rightarrow> src_at c ks)"

fun json_at :: "json \<Rightarrow> string list \<Rightarrow> json option" where
  "json_at v [] = Some v"
| "json_at v (k # ks) = (case jfield v k of None \<Rightarrow> None | Some c \<Rightarrow> json_at c ks)"

definition keys :: "src \<Rightarrow> string set" where
  "keys v = (case v of VMap m \<Rightarrow> dom m | _ \<Rightarrow> {})"

section \<open>The object model\<close>

subsection \<open>Recipients\<close>

text \<open>
  A value of the interface \<^verbatim>\<open>Recipient\<close>; the nil interface is \<open>None\<close> of
  \<open>Recipient option\<close>. No code tests a recipient for nil, so an interface that holds a
  pointer to a \<^verbatim>\<open>User\<close> or \<^verbatim>\<open>PhoneNumber\<close> behaves as the value pointed to, and
  as the nil interface when the pointer is nil (the call panics either way).
\<close>

datatype Recipient = User string | PhoneNumber string

definition User_Source :: "string \<Rightarrow> fault + src" where
  "User_Source u = Inr (VMap [''id'' \<mapsto> VString u])"

definition PhoneNumber_Source :: "string \<Rightarrow> fault + src" where
  "PhoneNumber_Source n = Inr (VMap [''phone_number'' \<mapsto> VString n])"

fun Recipient_Source :: "Recipient \<Rightarrow> fault + src" where
  "Recipient_Source (User u) = User_Source u"
| "Recipient_Source (PhoneNumber n) = PhoneNumber_Source n"

subsection \<open>Buttons\<close>

type_synonym WebviewHeightRatio = string

record URLButton =
  ub_Title :: string
  ub_URL :: string
  ub_WebviewHeightRatio :: WebviewHeightRatio
  ub_MessengerExtensions :: bool
  ub_FallbackURL :: string

record PostbackButton =
  pb_Title :: string
  pb_Payload :: string

record CallButton =
  call_Title :: string
  call_PhoneNumber :: string

record AccountLinkButton =
  alb_URL :: string

text \<open>
  A value of the interface \<^verbatim>\<open>Button\<close>: a pointer to a struct of one of the
  library's six types. The pointer inside the interface may itself be nil (\<open>None\<close>
  under the constructor): such an interface value is not nil, it passes a test
  \<^verbatim>\<open>!= nil\<close>. The nil interface is \<open>None\<close> of \<open>Button option\<close>.
  \<^verbatim>\<open>ShareButton\<close> and \<^verbatim>\<open>AccountUnlinkButton\<close> have no fields and their methods read
  none, so for them a nil pointer renders like any other.
\<close>

datatype Button = URLButton "URLButton option" | PostbackButton "PostbackButton option"
  | CallButton "CallButton option" | ShareButton
  | AccountLinkButton "AccountLinkButton option" | AccountUnlinkButton

definition URLButton_Source :: "URLButton \<Rightarrow> fault + src" where
  "URLButton_Source b =
     (let src = [''type'' \<mapsto> VString ''web_url'', ''title'' \<mapsto> VString (ub_Title b),
                 ''url'' \<mapsto> VString (ub_URL b)];
          src = (if ub_WebviewHeightRatio b \<noteq> []
                 then src(''webview_height_ratio'' \<mapsto> VString (ub_WebviewHeightRatio b))
                 else src);
          src = (if ub_MessengerExtensions b
                 then src(''messenger_extensions'' \<mapsto> VBool (ub_MessengerExtensions b))
                 else src);
          src = (if ub_FallbackURL b \<noteq> []
                 then src(''fallback_url'' \<mapsto> VString (ub_FallbackURL b))
                 else src)
      in Inr (VMap src))"

definition PostbackButton_Source :: "PostbackButton \<Rightarrow> fault + src" where
  "PostbackButton_Source b =
     Inr (VMap [''type'' \<mapsto> VString ''postback'', ''title'' \<mapsto> VString (pb_Title b),
                ''payload'' \<mapsto> VString (pb_Payload b)])"

definition CallButton_Source :: "CallButton \<Rightarrow> fault + src" where
  "CallButton_Source b =
     Inr (VMap [''type'' \<mapsto> VString ''phone_number'', ''title'' \<mapsto> VString (call_Title b),
                ''payload'' \<mapsto> VString (call_PhoneNumber b)])"

definition ShareButton_Source :: "fault + src" where
  "ShareButton_Source = Inr (VMap [''type'' \<mapsto> VString ''element_share''])"

definition AccountLinkButton_Source :: "AccountLinkButton \<Rightarrow> fault + src" where
  "AccountLinkButton_Source b =
     Inr (VMap [''type'' \<mapsto> VString ''account_link'', ''url'' \<mapsto> VString (alb_URL b)])"

definition AccountUnlinkButton_Source :: "fault + src" where
  "AccountUnlinkButton_Source = Inr (VMap [''type'' \<mapsto> VString ''account_unlink''])"

fun Button_Source :: "Button \<Rightarrow> fault + src" where
  "Button_Source (URLButton b) = call URLButton_Source b"
| "Button_Source (PostbackButton b) = call PostbackButton_Source b"
| "Button_Source (CallButton b) = call CallButton_Source b"
| "Button_Source ShareButton = ShareButton_Source"
| "Button_Source (AccountLinkButton b) = call AccountLinkButton_Source b"
| "Button_Source AccountUnlinkButton = AccountUnlinkButton_Source"

subsection \<open>Elements\<close>

record Element =
  e_Title :: string
  e_Subtitle :: string
  e_ItemURL :: string
  e_ImageURL :: string
  e_Buttons :: "Button option list"
  e_DefaultAction :: "Button option"

definition Element_Source :: "Element \<Rightarrow> fault + src" where
  "Element_Source e =
     (let src = [''title'' \<mapsto> VString (e_Title e)];
          src = (if e_Subtitle e \<noteq> [] then src(''subtitle'' \<mapsto> VString (e_Subtitle e))
                 else src);
          src = (if e_ItemURL e \<noteq> [] then src(''item_url'' \<mapsto> VString (e_ItemURL e))
                 else src);
          src = (if e_ImageURL e \<noteq> [] then src(''image_url'' \<mapsto> VString (e_ImageURL e))
                 else src)
      in case (if length (e_Buttons e) > 0
               then (case Source_each (call Button_Source) (e_Buttons e) None of
                       Inl err \<Rightarrow> Inl err
                     | Inr btnSrcs \<Rightarrow> Inr (src(''buttons'' \<mapsto> VSlice btnSrcs)))
               else Inr src) of
           Inl err \<Rightarrow> Inl err
         | Inr src \<Rightarrow>
             (case e_DefaultAction e of
                None \<Rightarrow> Inr (VMap src)
              | Some b \<Rightarrow>
                  (case Button_Source b of
                     Inl err \<Rightarrow> Inl err
                   | Inr btnSrc \<Rightarrow> Inr (VMap (src(''default_action'' \<mapsto> btnSrc))))))"

subsection \<open>Attachments\<close>

type_synonym MultimediaType = string
type_synonym ListTopElementStyle = string

record MultimediaAttachment =
  a_Type :: MultimediaType
  a_URL :: string
  a_AttachmentID :: string
  a_Reusable :: bool

record ButtonTemplate =
  bt_Text :: string
  bt_Buttons :: "Button option list"

record GenericTemplate =
  gt_Elements :: "Element option list"

record ListTemplate =
  lt_Elements :: "Element option list"
  lt_TopElementStyle :: ListTopElementStyle
  lt_Buttons :: "Button option list"

text \<open>
  A value of the interface \<^verbatim>\<open>Attachment\<close>: a pointer, which may be nil, to a struct
  of one of the four types. All four \<^verbatim>\<open>Source\<close> methods read a field of the
  receiver.
\<close>

datatype Attachment = MultimediaAttachment "MultimediaAttachment option"
  | ButtonTemplate "ButtonTemplate option" | GenericTemplate "GenericTemplate option"
  | ListTemplate "ListTemplate option"

definition MultimediaAttachment_Source :: "MultimediaAttachment \<Rightarrow> fault + src" where
  "MultimediaAttachment_Source a =
     (let payload = Map.empty;
          payload = (if a_AttachmentID a \<noteq> []
                     then payload(''attachment_id'' \<mapsto> VString (a_AttachmentID a))
                     else (let payload = payload(''url'' \<mapsto> VString (a_URL a))
                           in if a_Reusable a then payload(''is_reusable'' \<mapsto> VBool True)
                              else payload))
      in Inr (VMap [''type'' \<mapsto> VString (a_Type a), ''payload'' \<mapsto> VMap payload]))"

definition ButtonTemplate_Source :: "ButtonTemplate \<Rightarrow> fault + src" where
  "ButtonTemplate_Source t =
     (case Source_each (call Button_Source) (bt_Buttons t) None of
        Inl err \<Rightarrow> Inl err
      | Inr btnSrcs \<Rightarrow>
          Inr (VMap [''type'' \<mapsto> VString ''template'',
                     ''payload'' \<mapsto> VMap [''template_type'' \<mapsto> VString ''button'',
                                           ''text'' \<mapsto> VString (bt_Text t),
                                           ''buttons'' \<mapsto> VSlice btnSrcs]]))"

definition GenericTemplate_Source :: "GenericTemplate \<Rightarrow> fault + src" where
  "GenericTemplate_Source t =
     (case Source_each (call Element_Source) (gt_Elements t) None of
        Inl err \<Rightarrow> Inl err
      | Inr elementSrcs \<Rightarrow>
          Inr (VMap [''type'' \<mapsto> VString ''template'',
                     ''payload'' \<mapsto> VMap [''template_type'' \<mapsto> VString ''generic'',
                                           ''elements'' \<mapsto> VSlice elementSrcs]]))"

definition ListTemplate_Source :: "ListTemplate \<Rightarrow> fault + src" where
  "ListTemplate_Source t =
     (let src = [''template_type'' \<mapsto> VString ''list''];
          src = (if lt_TopElementStyle t \<noteq> []
                 then src(''top_element_style'' \<mapsto> VString (lt_TopElementStyle t))
                 else src)
      in case Source_each (call Element_Source) (lt_Elements t) None of
           Inl err \<Rightarrow> Inl err
         | Inr elementSrcs \<Rightarrow>
             (let src = src(''elements'' \<mapsto> VSlice elementSrcs)
              in case (if length (lt_Buttons t) > 0
                       then (case Source_each (call Button_Source) (lt_Buttons t) None of
                               Inl err \<Rightarrow> Inl err
                             | Inr btnSrcs \<Rightarrow> Inr (src(''buttons'' \<mapsto> VSlice btnSrcs)))
                       else Inr src) of
                   Inl err \<Rightarrow> Inl err
                 | Inr src \<Rightarrow>
                     Inr (VMap [''type'' \<mapsto> VString ''template'', ''payload'' \<mapsto> VMap src])))"

fun Attachment_Source :: "Attachment \<Rightarrow> fault + src" where
  "Attachment_Source (MultimediaAttachment a) = call MultimediaAttachment_Source a"
| "Attachment_Source (ButtonTemplate t) = call ButtonTemplate_Source t"
| "Attachment_Source (GenericTemplate t) = call GenericTemplate_Source t"
| "Attachment_Source (ListTemplate t) = call ListTemplate_Source t"

subsection \<open>Quick replies and messages\<close>

record QuickReply =
  qr_Title :: string
  qr_ImageURL :: string
  qr_Payload :: string
  qr_AskForLocation :: bool

definition QuickReply_Source :: "QuickReply \<Rightarrow> fault + src" where
  "QuickReply_Source qr =
     (let src = Map.empty;
          src = (if qr_Title qr \<noteq> [] then src(''title'' \<mapsto> VString (qr_Title qr)) else src);
          src = (if qr_ImageURL qr \<noteq> [] then src(''image_url'' \<mapsto> VString (qr_ImageURL qr))
                 else src);
          src = (if qr_Payload qr \<noteq> [] then src(''payload'' \<mapsto> VString (qr_Payload qr))
                 else src);
          src = (if qr_AskForLocation qr then src(''content_type'' \<mapsto> VString ''location'')
                 else src(''content_type'' \<mapsto> VString ''text''))
      in Inr (VMap src))"

type_synonym NotificationType = string

record Message =
  m_To :: "Recipient option"
  m_Text :: string
  m_Attachment :: "Attachment option"
  m_QuickReplies :: "QuickReply option list"
  m_Metadata :: string
  m_NotificationType :: NotificationType

text \<open>
  \<^verbatim>\<open>Message.Source\<close>: the recipient first (a nil \<^verbatim>\<open>To\<close> panics), then the
  \<^verbatim>\<open>message\<close> object: the text branch (with the quick replies) when \<^verbatim>\<open>Text\<close> is
  not empty, else the attachment branch when \<^verbatim>\<open>Attachment\<close> is not nil; then the
  metadata, and the notification type beside the message.
\<close>

definition Message_Source :: "Message \<Rightarrow> fault + src" where
  "Message_Source m =
     (case call Recipient_Source (m_To m) of
        Inl err \<Rightarrow> Inl err
      | Inr toSrc \<Rightarrow>
          (let src = [''recipient'' \<mapsto> toSrc];
               msg = Map.empty
           in case (if m_Text m \<noteq> []
                    then (let msg = msg(''text'' \<mapsto> VString (m_Text m))
                          in if length (m_QuickReplies m) > 0
                             then (case Source_each (call QuickReply_Source)
                                          (m_QuickReplies m) None of
                                     Inl err \<Rightarrow> Inl err
                                   | Inr replies \<Rightarrow>
                                       Inr (msg(''quick_replies'' \<mapsto> VSlice replies)))
                             else Inr msg)
                    else (case m_Attachment m of
                            Some a \<Rightarrow>
                              (case Attachment_Source a of
                                 Inl err \<Rightarrow> Inl err
                               | Inr asrc \<Rightarrow> Inr (msg(''attachment'' \<mapsto> asrc)))
                          | None \<Rightarrow> Inr msg)) of
                Inl err \<Rightarrow> Inl err
              | Inr msg \<Rightarrow>
                  (let msg = (if m_Metadata m \<noteq> []
                              then msg(''metadata'' \<mapsto> VString (m_Metadata m)) else msg);
                       src = src(''message'' \<mapsto> VMap msg);
                       src = (if m_NotificationType m \<noteq> []
                              then src(''notification_type'' \<mapsto> VString (m_NotificationType m))
                              else src)
                   in Inr (VMap src))))"

section \<open>The sender\<close>

text \<open>
  \<^verbatim>\<open>fbError.Error\<close> returns the message; for an error of the standard library
  \<^verbatim>\<open>Error()\<close> is the message the error is known by.
\<close>

fun Error_of :: "error \<Rightarrow> string" where
  "Error_of (ErrorString s) = s"
| "Error_of (FbError e) = err_Message e"

record MessageResponse =
  RecipientID_resp :: string
  MessageID_resp :: string
  AttachmentID_resp :: string

text \<open>
  An \<^verbatim>\<open>*http.Response\<close> as the sender reads it: the status code, and what reading
  the body to its end gives (\<^verbatim>\<open>ioutil.ReadAll\<close>: the bytes, or an error).
\<close>

record Response =
  StatusCode :: int
  Body :: "error + string"

text \<open>
  The standard library and the network are not part of the repository: one call of
  \<^verbatim>\<open>send\<close> sees them as the functions below (\<^verbatim>\<open>json.Marshal\<close> of the tree,
  \<^verbatim>\<open>http.NewRequest\<close> on the endpoint, \<^verbatim>\<open>client.Do\<close> on the request body,
  \<^verbatim>\<open>json.Unmarshal\<close> into \<^verbatim>\<open>struct{ Error fbError `json:"error"` }\<close>, which gives
  the decoded \<^verbatim>\<open>Error\<close> member or fails, and the decoder of the success body).
\<close>

record net =
  json_Marshal :: "src \<Rightarrow> error + string"
  http_NewRequest :: "string \<Rightarrow> error option"
  client_Do :: "string \<Rightarrow> error + Response"
  json_Unmarshal_errResp :: "string \<Rightarrow> error + fbError"
  json_Decode_resp :: "error + string \<Rightarrow> error + MessageResponse"

record Sender =
  accessToken :: string
  endpoint :: string

definition checkResponse :: "net \<Rightarrow> Response \<Rightarrow> error option" where
  "checkResponse n resp =
     (if StatusCode resp \<ge> 200 \<and> StatusCode resp \<le> 299 then None
      else case Body resp of
             Inl err \<Rightarrow>
               Some (FbError \<lparr>err_Message = Error_of err, err_Type = [],
                               err_Code = StatusCode resp, err_ErrorSubcode = 0,
                               err_FBTraceID = []\<rparr>)
           | Inr slurp \<Rightarrow>
               (case json_Unmarshal_errResp n slurp of
                  Inl err \<Rightarrow>
                    Some (FbError \<lparr>err_Message = Error_of err, err_Type = [],
                                    err_Code = StatusCode resp, err_ErrorSubcode = 0,
                                    err_FBTraceID = []\<rparr>)
                | Inr errResp \<Rightarrow> Some (FbError errResp)))"

text \<open>
  \<^verbatim>\<open>send(src, dst)\<close>: \<open>dst\<close> is \<open>None\<close> for the nil destination of
  \<^verbatim>\<open>SendAction\<close> (the body is discarded) and the response struct to fill otherwise.
  The result is the error, or the destination after the call.
\<close>

definition send :: "net \<Rightarrow> Sender \<Rightarrow> src \<Rightarrow> MessageResponse option
    \<Rightarrow> error + MessageResponse option" where
  "send n s src dst =
     (case json_Marshal n src of
        Inl err \<Rightarrow> Inl err
      | Inr body \<Rightarrow>
          (case http_NewRequest n (endpoint s) of
             Some err \<Rightarrow> Inl err
           | None \<Rightarrow>
               (case client_Do n body of
                  Inl err \<Rightarrow> Inl err
                | Inr resp \<Rightarrow>
                    (case checkResponse n resp of
                       Some err \<Rightarrow> Inl err
                     | None \<Rightarrow>
                         (case dst of
                            None \<Rightarrow> Inr None
                          | Some d \<Rightarrow>
                              (case json_Decode_resp n (Body resp) of
                                 Inl err \<Rightarrow> Inl err
                               | Inr r \<Rightarrow> Inr (Some r)))))))"

text \<open>\<^verbatim>\<open>var resp MessageResponse\<close>: the zero value \<^verbatim>\<open>SendMessage\<close> hands to \<^verbatim>\<open>send\<close>.\<close>

definition zero_MessageResponse :: MessageResponse where
  "zero_MessageResponse =
     \<lparr>RecipientID_resp = [], MessageID_resp = [], AttachmentID_resp = []\<rparr>"

definition SendMessage :: "net \<Rightarrow> Sender \<Rightarrow> Message \<Rightarrow> fault + MessageResponse" where
  "SendMessage n s msg =
     (case Message_Source msg of
        Inl err \<Rightarrow> Inl err
      | Inr src \<Rightarrow>
          (let resp = zero_MessageResponse
           in case send n s src (Some resp) of
                Inl err \<Rightarrow> Inl (Error err)
              | Inr d \<Rightarrow> Inr (case d of Some r \<Rightarrow> r | None \<Rightarrow> resp)))"

type_synonym SenderAction = string

definition SendAction :: "net \<Rightarrow> Sender \<Rightarrow> Recipient option \<Rightarrow> SenderAction
    \<Rightarrow> fault option" where
  "SendAction n s to action =
     (case call Recipient_Source to of
        Inl err \<Rightarrow> Some err
      | Inr recipient \<Rightarrow>
          (case send n s (VMap [''recipient'' \<mapsto> recipient,
                                ''sender_action'' \<mapsto> VString action]) None of
             Inl err \<Rightarrow> Some (Error err)
           | Inr d \<Rightarrow> None))"

section \<open>Events\<close>

type_synonym int64 = "64 word"

record Metadata =
  PageID :: string
  SenderID :: string
  RecipientID :: string
  Timestamp :: int64

record Coordinates =
  Lat :: float64
  Long :: float64

record AttachmentInfo =
  ai_Type :: string
  ai_MultimediaPayload :: "string option"
  ai_LocationPayload :: "Coordinates option option"

record MessageReceived =
  mr_Metadata :: Metadata
  mr_MessageID :: string
  mr_Seq :: int
  mr_Text :: string
  mr_StickerID :: int
  mr_Attachments :: "AttachmentInfo option list"
  mr_QuickReply :: "string option"

record MessageDelivered =
  md_Metadata :: Metadata
  md_MessageIDs :: "string list"
  md_Watermark :: int
  md_Seq :: int

record MessageRead =
  rd_Metadata :: Metadata
  rd_Watermark :: int
  rd_Seq :: int

record ReferralUsed =
  ru_Metadata :: Metadata
  ru_Type :: string
  ru_Reference :: string
  ru_Source :: string

record PostbackReceived =
  pr_Metadata :: Metadata
  pr_Payload :: string
  pr_Referral :: "ReferralUsed option"

record AccountLinked =
  al_Metadata :: Metadata
  al_AuthorizationCode :: string

record AccountUnlinked =
  au_Metadata :: Metadata
  au_AuthorizationCode :: string

record OptInTapped =
  oi_Metadata :: Metadata
  oi_Reference :: string

record CallbackUnsupported =
  cu_Metadata :: Metadata
  cu_Extra :: "(string \<Rightarrow> json option) option"

record VerificationFailed =
  Token :: string
  Err :: error

record VerificationCompleted =
  Challenge :: string

text \<open>
  \<^verbatim>\<open>Event\<close> is the empty interface; the webhook puts a pointer to one of these
  structs in it.
\<close>

datatype Event = MessageReceived MessageReceived | MessageDelivered MessageDelivered
  | MessageRead MessageRead | PostbackReceived PostbackReceived
  | AccountLinked AccountLinked | AccountUnlinked AccountUnlinked
  | OptInTapped OptInTapped | ReferralUsed ReferralUsed
  | CallbackUnsupported CallbackUnsupported
  | VerificationFailed VerificationFailed | VerificationCompleted VerificationCompleted

section \<open>The webhook\<close>

definition ErrVerifyTokenMismatch :: error where
  "ErrVerifyTokenMismatch = ErrorString ''verify token mismatch''"

text \<open>
  The struct \<^verbatim>\<open>callback\<close> after decoding: the seven payload pointers are nil
  (\<open>None\<close>) unless the JSON object had the key. The anonymous structs
  \<^verbatim>\<open>Sender\<close> and \<^verbatim>\<open>Recipient\<close> have the one field \<^verbatim>\<open>ID\<close>.
\<close>

record AccountLinking =
  Status :: string
  AuthorizationCode :: string

record callback =
  cb_Sender_ID :: string
  cb_Recipient_ID :: string
  cb_Timestamp :: int64
  cb_Message :: "MessageReceived option"
  cb_Delivery :: "MessageDelivered option"
  cb_Read :: "MessageRead option"
  cb_Postback :: "PostbackReceived option"
  cb_AccountLinking :: "AccountLinking option"
  cb_OptIn :: "OptInTapped option"
  cb_Referral :: "ReferralUsed option"
  cb_Extra :: "(string \<Rightarrow> json option) option"

text \<open>
  The zero values of the structs: what the decoder starts from before it stores the
  fields the JSON object has.
\<close>

definition zero_Metadata :: Metadata where
  "zero_Metadata = \<lparr>PageID = [], SenderID = [], RecipientID = [], Timestamp = 0\<rparr>"

definition zero_MessageReceived :: MessageReceived where
  "zero_MessageReceived =
     \<lparr>mr_Metadata = zero_Metadata, mr_MessageID = [], mr_Seq = 0, mr_Text = [],
      mr_StickerID = 0, mr_Attachments = [], mr_QuickReply = None\<rparr>"

definition zero_callback :: callback where
  "zero_callback =
     \<lparr>cb_Sender_ID = [], cb_Recipient_ID = [], cb_Timestamp = 0, cb_Message = None,
      cb_Delivery = None, cb_Read = None, cb_Postback = None, cb_AccountLinking = None,
      cb_OptIn = None, cb_Referral = None, cb_Extra = None\<rparr>"

definition callback_Event :: "callback \<Rightarrow> string \<Rightarrow> Event" where
  "callback_Event cb pageID =
     (let md = \<lparr>PageID = pageID, SenderID = cb_Sender_ID cb,
                 RecipientID = cb_Recipient_ID cb, Timestamp = cb_Timestamp cb\<rparr>
      in case cb_Message cb of
           Some m \<Rightarrow> MessageReceived (m\<lparr>mr_Metadata := md\<rparr>)
         | None \<Rightarrow>
        (case cb_Delivery cb of
           Some d \<Rightarrow> MessageDelivered (d\<lparr>md_Metadata := md\<rparr>)
         | None \<Rightarrow>
        (case cb_Read cb of
           Some r \<Rightarrow> MessageRead (r\<lparr>rd_Metadata := md\<rparr>)
         | None \<Rightarrow>
        (case cb_Postback cb of
           Some p \<Rightarrow> PostbackReceived (p\<lparr>pr_Metadata := md\<rparr>)
         | None \<Rightarrow>
        (case cb_AccountLinking cb of
           Some l \<Rightarrow>
             (if Status l = ''linked''
              then AccountLinked \<lparr>al_Metadata = md,
                                   al_AuthorizationCode = AuthorizationCode l\<rparr>
              else AccountUnlinked \<lparr>au_Metadata = md, au_AuthorizationCode = []\<rparr>)
         | None \<Rightarrow>
        (case cb_OptIn cb of
           Some oi \<Rightarrow> OptInTapped (oi\<lparr>oi_Metadata := md\<rparr>)
         | None \<Rightarrow>
        (case cb_Referral cb of
           Some ru \<Rightarrow> ReferralUsed (ru\<lparr>ru_Metadata := md\<rparr>)
         | None \<Rightarrow>
             CallbackUnsupported \<lparr>cu_Metadata = md, cu_Extra = cb_Extra cb\<rparr>)))))))"

text \<open>
  The decoded request body, \<^verbatim>\<open>{object, entry: [{id, time, messaging: [...]}]}\<close>.
  \<^verbatim>\<open>Callbacks\<close> is a slice of pointers: a JSON \<^verbatim>\<open>null\<close> in the array is a nil
  pointer.
\<close>

record page =
  page_ID :: string
  page_Timestamp :: int64
  page_Callbacks :: "callback option list"

record callbacks =
  Object :: string
  Pages :: "page list"

text \<open>
  One HTTP exchange as the handler changes it: the events the listener has been called
  with (in call order), the status code once \<^verbatim>\<open>WriteHeader\<close> has run, the body
  written, and whether the handler panicked (then nothing more runs and no response is
  written by the handler).
\<close>

record exchange =
  events :: "Event list"
  status :: "int option"
  written :: string
  panicked :: bool

text \<open>The exchange when the handler starts: nothing emitted, nothing written.\<close>

definition fresh :: exchange where
  "fresh = \<lparr>events = [], status = None, written = [], panicked = False\<rparr>"

definition emitEvent :: "Event \<Rightarrow> exchange \<Rightarrow> exchange" where
  "emitEvent e w = w\<lparr>events := events w @ [e]\<rparr>"

definition WriteHeader :: "int \<Rightarrow> exchange \<Rightarrow> exchange" where
  "WriteHeader code w = (if status w = None then w\<lparr>status := Some code\<rparr> else w)"

definition Write :: "string \<Rightarrow> exchange \<Rightarrow> exchange" where
  "Write b w = (let w = WriteHeader 200 w in w\<lparr>written := written w @ b\<rparr>)"

record webhook =
  verifyTokens :: "string set"

text \<open>
  The request: the method, the parsed query (\<^verbatim>\<open>url.Values\<close>, a map from a key to
  its values; \<^verbatim>\<open>Get\<close> is the first value or the empty string) and what reading the
  body gives.
\<close>

record Request =
  Method :: string
  Query :: "string \<Rightarrow> string list"
  RequestBody :: "error + string"

definition Get :: "(string \<Rightarrow> string list) \<Rightarrow> string \<Rightarrow> string" where
  "Get q k = (case q k of [] \<Rightarrow> [] | v # vs \<Rightarrow> v)"

definition handleVerification :: "webhook \<Rightarrow> Request \<Rightarrow> exchange \<Rightarrow> exchange" where
  "handleVerification wh r w =
     (let q = Query r
      in if Get q ''hub.verify_token'' \<notin> verifyTokens wh
         then WriteHeader 403
                (emitEvent (VerificationFailed \<lparr>Token = Get q ''hub.verify_token'',
                                                Err = ErrVerifyTokenMismatch\<rparr>) w)
         else Write (Get q ''hub.challenge'')
                (WriteHeader 200
                   (emitEvent (VerificationCompleted
                                 \<lparr>Challenge = Get q ''hub.challenge''\<rparr>) w)))"

text \<open>
  The two loops of \<^verbatim>\<open>handleCallbacks\<close>. \<^verbatim>\<open>cb.Event\<close> on a nil \<^verbatim>\<open>cb\<close> reads
  \<^verbatim>\<open>cb.Sender.ID\<close> and panics.
\<close>

fun emit_callbacks :: "string \<Rightarrow> callback option list \<Rightarrow> exchange \<Rightarrow> exchange" where
  "emit_callbacks pageID [] w = w"
| "emit_callbacks pageID (None # cbs) w = w\<lparr>panicked := True\<rparr>"
| "emit_callbacks pageID (Some cb # cbs) w =
     emit_callbacks pageID cbs (emitEvent (callback_Event cb pageID) w)"

fun emit_pages :: "page list \<Rightarrow> exchange \<Rightarrow> exchange" where
  "emit_pages [] w = w"
| "emit_pages (p # ps) w =
     (let w = emit_callbacks (page_ID p) (page_Callbacks p) w
      in if panicked w then w else emit_pages ps w)"

text \<open>
  \<^verbatim>\<open>json.Unmarshal(body, &cbs)\<close> is the standard library's: the handler takes it
  as the function \<open>unmarshal\<close>.
\<close>

definition handleCallbacks :: "(string \<Rightarrow> error + callbacks) \<Rightarrow> webhook \<Rightarrow> Request
    \<Rightarrow> exchange \<Rightarrow> exchange" where
  "handleCallbacks unmarshal wh r w =
     (case RequestBody r of
        Inl err \<Rightarrow> WriteHeader 400 w
      | Inr body \<Rightarrow>
          (case unmarshal body of
             Inl err \<Rightarrow> WriteHeader 400 w
           | Inr cbs \<Rightarrow>
               (let w = emit_pages (Pages cbs) w
                in if panicked w then w else WriteHeader 200 w)))"

definition WebhookHandler :: "(string \<Rightarrow> error + callbacks) \<Rightarrow> webhook \<Rightarrow> Request
    \<Rightarrow> exchange \<Rightarrow> exchange" where
  "WebhookHandler unmarshal wh r w =
     (if Method r = ''GET'' then handleVerification wh r w
      else if Method r = ''POST'' then handleCallbacks unmarshal wh r w
      else WriteHeader 405 w)"

subsection \<open>How the decoder fills the field Extra\<close>

text \<open>
  \<^verbatim>\<open>Extra map[string]interface{} `json:",inline"`\<close> is decoded by
  \<^verbatim>\<open>encoding/json\<close>. That package names a struct field by the part of its tag before
  the first comma, or by the Go name of the field when that part is empty; of the
  options after the comma it knows \<^verbatim>\<open>omitempty\<close> and \<^verbatim>\<open>string\<close>, and any other
  option, \<^verbatim>\<open>inline\<close> among them, changes nothing. A key of the JSON object goes to
  the field whose name equals it, or else equals it up to the case of its letters; a
  key with no such field is skipped.
\<close>

definition json_name :: "string \<Rightarrow> string \<Rightarrow> string" where
  "json_name goName tag =
     (let name = takeWhile (\<lambda>c. c \<noteq> CHR '','') tag in if name = [] then goName else name)"

definition Extra_name :: string where
  "Extra_name = json_name ''Extra'' '',inline''"

definition ascii_lower :: "char \<Rightarrow> char" where
  "ascii_lower c =
     (let n = (of_char c :: nat) in if 65 \<le> n \<and> n \<le> 90 then char_of (n + 32) else c)"

text \<open>
  \<^verbatim>\<open>EqualFold\<close> against \<^verbatim>\<open>Extra\<close>: none of its letters has a fold partner
  outside ASCII, so comparing the ASCII lower-case forms is the whole test.
\<close>

definition equal_fold :: "string \<Rightarrow> string \<Rightarrow> bool" where
  "equal_fold a b = (map ascii_lower a = map ascii_lower b)"

text \<open>
  The value of \<^verbatim>\<open>cb.Extra\<close> after the pairs of one callback object have been
  decoded in order, starting from \<open>extra\<close>; \<open>None\<close> when \<^verbatim>\<open>json.Unmarshal\<close>
  fails on the field (a value that is neither an object nor \<^verbatim>\<open>null\<close>). An object
  is stored into the map the field holds (made when the field is nil), \<^verbatim>\<open>null\<close>
  makes the field nil.
\<close>

fun unmarshal_Extra :: "(string \<times> json) list \<Rightarrow> (string \<Rightarrow> json option) option
    \<Rightarrow> (string \<Rightarrow> json option) option option" where
  "unmarshal_Extra [] extra = Some extra"
| "unmarshal_Extra ((k, v) # kvs) extra =
     (if k = Extra_name \<or> equal_fold k Extra_name
      then (case v of
              JNull \<Rightarrow> unmarshal_Extra kvs None
            | JObject m \<Rightarrow>
                unmarshal_Extra kvs
                  (Some ((case extra of None \<Rightarrow> Map.empty | Some e \<Rightarrow> e) ++ m))
            | _ \<Rightarrow> None)
      else unmarshal_Extra kvs extra)"

section \<open>Notions the properties are stated with\<close>

subsection \<open>Classification by precedence\<close>

datatype callback_kind = KMessage | KDelivery | KRead | KPostback | KAccountLinking
  | KOptIn | KReferral | KUnsupported | KVerification

fun kind_of :: "Event \<Rightarrow> callback_kind" where
  "kind_of (MessageReceived e) = KMessage"
| "kind_of (MessageDelivered e) = KDelivery"
| "kind_of (MessageRead e) = KRead"
| "kind_of (PostbackReceived e) = KPostback"
| "kind_of (AccountLinked e) = KAccountLinking"
| "kind_of (AccountUnlinked e) = KAccountLinking"
| "kind_of (OptInTapped e) = KOptIn"
| "kind_of (ReferralUsed e) = KReferral"
| "kind_of (CallbackUnsupported e) = KUnsupported"
| "kind_of (VerificationFailed e) = KVerification"
| "kind_of (VerificationCompleted e) = KVerification"

text \<open>
  The specification's rule: an ordered list of pairs, a test for the presence of a field
  and the kind it stands for; the first pair whose test holds decides, and when none
  holds the callback is unsupported.
\<close>

definition precedence :: "((callback \<Rightarrow> bool) \<times> callback_kind) list" where
  "precedence =
     [(\<lambda>cb. cb_Message cb \<noteq> None, KMessage),
      (\<lambda>cb. cb_Delivery cb \<noteq> None, KDelivery),
      (\<lambda>cb. cb_Read cb \<noteq> None, KRead),
      (\<lambda>cb. cb_Postback cb \<noteq> None, KPostback),
      (\<lambda>cb. cb_AccountLinking cb \<noteq> None, KAccountLinking),
      (\<lambda>cb. cb_OptIn cb \<noteq> None, KOptIn),
      (\<lambda>cb. cb_Referral cb \<noteq> None, KReferral)]"

definition first_match :: "callback \<Rightarrow> callback_kind" where
  "first_match cb =
     (case find (\<lambda>rule. fst rule cb) precedence of
        Some rule \<Rightarrow> snd rule
      | None \<Rightarrow> KUnsupported)"

fun metadata_of :: "Event \<Rightarrow> Metadata option" where
  "metadata_of (MessageReceived e) = Some (mr_Metadata e)"
| "metadata_of (MessageDelivered e) = Some (md_Metadata e)"
| "metadata_of (MessageRead e) = Some (rd_Metadata e)"
| "metadata_of (PostbackReceived e) = Some (pr_Metadata e)"
| "metadata_of (AccountLinked e) = Some (al_Metadata e)"
| "metadata_of (AccountUnlinked e) = Some (au_Metadata e)"
| "metadata_of (OptInTapped e) = Some (oi_Metadata e)"
| "metadata_of (ReferralUsed e) = Some (ru_Metadata e)"
| "metadata_of (CallbackUnsupported e) = Some (cu_Metadata e)"
| "metadata_of (VerificationFailed e) = None"
| "metadata_of (VerificationCompleted e) = None"

subsection \<open>The callbacks the dispatcher reaches\<close>

text \<open>
  The entries of all messaging lists in the order of the arrays, each with its entry;
  and those of them that come before the first \<^verbatim>\<open>null\<close>, which are all of them when
  there is none.
\<close>

definition in_array_order :: "page list \<Rightarrow> (page \<times> callback option) list" where
  "in_array_order ps = concat (map (\<lambda>p. map (Pair p) (page_Callbacks p)) ps)"

definition reached :: "page list \<Rightarrow> (page \<times> callback option) list" where
  "reached ps = takeWhile (\<lambda>pc. snd pc \<noteq> None) (in_array_order ps)"

subsection \<open>Values of the object model\<close>

text \<open>
  The interface \<^verbatim>\<open>Object\<close> is implemented by every type above; \<open>Source\<close> is the
  call \<^verbatim>\<open>x.Source()\<close> on a value of one of them. A message, a quick reply and an
  element are held through a pointer, which may be nil; so may a recipient be (a pointer
  to a \<^verbatim>\<open>User\<close> or \<^verbatim>\<open>PhoneNumber\<close>).
\<close>

datatype Object = Recipient_Object "Recipient option" | Message_Object "Message option"
  | QuickReply_Object "QuickReply option" | Attachment_Object Attachment
  | Element_Object "Element option" | Button_Object Button

fun Source :: "Object \<Rightarrow> fault + src" where
  "Source (Recipient_Object r) = call Recipient_Source r"
| "Source (Message_Object m) = call Message_Source m"
| "Source (QuickReply_Object qr) = call QuickReply_Source qr"
| "Source (Attachment_Object a) = Attachment_Source a"
| "Source (Element_Object e) = call Element_Source e"
| "Source (Button_Object b) = Button_Source b"

definition no_nil :: "'a option list \<Rightarrow> bool" where
  "no_nil xs = list_all (\<lambda>x. x \<noteq> None) xs"

text \<open>
  Everything the rendering goes through is there. A button holds a pointer that is not
  nil (the two field-less buttons need none). In a list of buttons every entry is an
  interface value that is not nil and is such a button; in a list of elements or quick
  replies no pointer is nil. The recipient of a message is set. A nil attachment and a
  nil default action are allowed (the code tests for them), but one that is not the nil
  interface must hold a pointer that is not nil.
\<close>

fun Button_set :: "Button \<Rightarrow> bool" where
  "Button_set (URLButton b) = (b \<noteq> None)"
| "Button_set (PostbackButton b) = (b \<noteq> None)"
| "Button_set (CallButton b) = (b \<noteq> None)"
| "Button_set ShareButton = True"
| "Button_set (AccountLinkButton b) = (b \<noteq> None)"
| "Button_set AccountUnlinkButton = True"

definition Buttons_set :: "Button option list \<Rightarrow> bool" where
  "Buttons_set bs = list_all (\<lambda>x. case x of None \<Rightarrow> False | Some b \<Rightarrow> Button_set b) bs"

definition Element_set :: "Element \<Rightarrow> bool" where
  "Element_set e =
     (Buttons_set (e_Buttons e)
      \<and> (case e_DefaultAction e of None \<Rightarrow> True | Some b \<Rightarrow> Button_set b))"

definition Elements_set :: "Element option list \<Rightarrow> bool" where
  "Elements_set es = list_all (\<lambda>x. case x of None \<Rightarrow> False | Some e \<Rightarrow> Element_set e) es"

fun Attachment_set :: "Attachment \<Rightarrow> bool" where
  "Attachment_set (MultimediaAttachment a) = (a \<noteq> None)"
| "Attachment_set (ButtonTemplate t) =
     (case t of None \<Rightarrow> False | Some t \<Rightarrow> Buttons_set (bt_Buttons t))"
| "Attachment_set (GenericTemplate t) =
     (case t of None \<Rightarrow> False | Some t \<Rightarrow> Elements_set (gt_Elements t))"
| "Attachment_set (ListTemplate t) =
     (case t of None \<Rightarrow> False
      | Some t \<Rightarrow> Elements_set (lt_Elements t) \<and> Buttons_set (lt_Buttons t))"

definition Message_set :: "Message \<Rightarrow> bool" where
  "Message_set m =
     (m_To m \<noteq> None \<and> no_nil (m_QuickReplies m)
      \<and> (case m_Attachment m of None \<Rightarrow> True | Some a \<Rightarrow> Attachment_set a))"

fun all_set :: "Object \<Rightarrow> bool" where
  "all_set (Recipient_Object r) = (r \<noteq> None)"
| "all_set (Message_Object m) = (case m of None \<Rightarrow> False | Some m \<Rightarrow> Message_set m)"
| "all_set (QuickReply_Object qr) = (qr \<noteq> None)"
| "all_set (Attachment_Object a) = Attachment_set a"
| "all_set (Element_Object e) = (case e of None \<Rightarrow> False | Some e \<Rightarrow> Element_set e)"
| "all_set (Button_Object b) = Button_set b"

text \<open>
  The narrower condition that only the interface-typed children are not nil: the
  recipient, the attachment, every button in a list and the default action of every
  element. It says nothing of the pointer such an interface value holds, nor of a nil
  pointer in a list of elements or quick replies.
\<close>

definition Element_interfaces_set :: "Element \<Rightarrow> bool" where
  "Element_interfaces_set e = (no_nil (e_Buttons e) \<and> e_DefaultAction e \<noteq> None)"

definition Elements_interfaces_set :: "Element option list \<Rightarrow> bool" where
  "Elements_interfaces_set es =
     list_all (\<lambda>x. case x of None \<Rightarrow> True | Some e \<Rightarrow> Element_interfaces_set e) es"

fun Attachment_interfaces_set :: "Attachment \<Rightarrow> bool" where
  "Attachment_interfaces_set (MultimediaAttachment a) = True"
| "Attachment_interfaces_set (ButtonTemplate t) =
     (case t of None \<Rightarrow> True | Some t \<Rightarrow> no_nil (bt_Buttons t))"
| "Attachment_interfaces_set (GenericTemplate t) =
     (case t of None \<Rightarrow> True | Some t \<Rightarrow> Elements_interfaces_set (gt_Elements t))"
| "Attachment_interfaces_set (ListTemplate t) =
     (case t of None \<Rightarrow> True
      | Some t \<Rightarrow> Elements_interfaces_set (lt_Elements t) \<and> no_nil (lt_Buttons t))"

definition Message_interfaces_set :: "Message \<Rightarrow> bool" where
  "Message_interfaces_set m =
     (m_To m \<noteq> None
      \<and> (case m_Attachment m of None \<Rightarrow> False | Some a \<Rightarrow> Attachment_interfaces_set a))"

fun interfaces_set :: "Object \<Rightarrow> bool" where
  "interfaces_set (Recipient_Object r) = True"
| "interfaces_set (Message_Object m) =
     (case m of None \<Rightarrow> True | Some m \<Rightarrow> Message_interfaces_set m)"
| "interfaces_set (QuickReply_Object qr) = True"
| "interfaces_set (Attachment_Object a) = Attachment_interfaces_set a"
| "interfaces_set (Element_Object e) =
     (case e of None \<Rightarrow> True | Some e \<Rightarrow> Element_interfaces_set e)"
| "interfaces_set (Button_Object b) = True"

section \<open>Rendering: when a call returns\<close>

lemma call_Some: "call f (Some x) = f x"
  by (simp add: call_def)

lemma no_nil_iff: "no_nil xs \<longleftrightarrow> None \<notin> set xs"
  unfolding no_nil_def list_all_iff by (metis option.exhaust)

lemma Source_each_cases:
  "(\<exists>r. Source_each f xs acc = Inr r) \<or> (\<exists>x\<in>set xs. \<exists>e. f x = Inl e \<and> Source_each f xs acc = Inl e)"
proof (induction xs arbitrary: acc)
  case Nil
  then show ?case by simp
next
  case (Cons x xs)
  show ?case
  proof (cases "f x")
    case (Inl e)
    then show ?thesis by auto
  next
    case (Inr s)
    with Cons [of "go_append acc s"] show ?thesis by auto
  qed
qed

lemma Source_each_returns:
  "(\<And>x. x \<in> set xs \<Longrightarrow> \<exists>v. f x = Inr v) \<Longrightarrow> \<exists>r. Source_each f xs acc = Inr r"
proof (induction xs arbitrary: acc)
  case Nil
  then show ?case by simp
next
  case (Cons x xs)
  then obtain v where "f x = Inr v" by fastforce
  with Cons show ?case by simp
qed

lemma Button_Source_returns: "Button_set b \<Longrightarrow> \<exists>v. Button_Source b = Inr v"
  by (cases b)
    (auto simp: call_def URLButton_Source_def PostbackButton_Source_def CallButton_Source_def
      ShareButton_Source_def AccountLinkButton_Source_def AccountUnlinkButton_Source_def Let_def)

lemma Recipient_Source_returns: "\<exists>m. Recipient_Source r = Inr (VMap m)"
  by (cases r) (simp_all add: User_Source_def PhoneNumber_Source_def)

lemma QuickReply_Source_returns: "\<exists>v. QuickReply_Source qr = Inr v"
  by (simp add: QuickReply_Source_def Let_def)

lemma Buttons_return:
  "Buttons_set bs \<Longrightarrow> \<exists>r. Source_each (call Button_Source) bs acc = Inr r"
proof (rule Source_each_returns)
  fix x assume "Buttons_set bs" "x \<in> set bs"
  then obtain b where "x = Some b" "Button_set b"
    by (auto simp: Buttons_set_def list_all_iff split: option.splits)
  then show "\<exists>v. call Button_Source x = Inr v"
    using Button_Source_returns [of b] by (simp add: call_Some)
qed

lemma Element_Source_returns:
  assumes "Element_set e"
  shows "\<exists>v. Element_Source e = Inr v"
proof -
  obtain r where r: "Source_each (call Button_Source) (e_Buttons e) None = Inr r"
    using Buttons_return assms unfolding Element_set_def by blast
  show ?thesis
  proof (cases "e_DefaultAction e")
    case None
    with r show ?thesis by (simp add: Element_Source_def Let_def)
  next
    case (Some b)
    with assms have "Button_set b" by (simp add: Element_set_def)
    then obtain v where "Button_Source b = Inr v" using Button_Source_returns by blast
    with r Some show ?thesis by (simp add: Element_Source_def Let_def)
  qed
qed

lemma Elements_return:
  "Elements_set es \<Longrightarrow> \<exists>r. Source_each (call Element_Source) es acc = Inr r"
proof (rule Source_each_returns)
  fix x assume "Elements_set es" "x \<in> set es"
  then obtain e where "x = Some e" "Element_set e"
    by (auto simp: Elements_set_def list_all_iff split: option.splits)
  then show "\<exists>v. call Element_Source x = Inr v"
    using Element_Source_returns [of e] by (simp add: call_Some)
qed

lemma Attachment_Source_returns:
  assumes "Attachment_set a"
  shows "\<exists>v. Attachment_Source a = Inr v"
proof (cases a)
  case (MultimediaAttachment x)
  with assms obtain m where "x = Some m" by auto
  with MultimediaAttachment show ?thesis
    by (simp add: call_Some MultimediaAttachment_Source_def Let_def)
next
  case (ButtonTemplate x)
  with assms obtain t where t: "x = Some t" "Buttons_set (bt_Buttons t)"
    by (auto split: option.splits)
  then obtain r where "Source_each (call Button_Source) (bt_Buttons t) None = Inr r"
    using Buttons_return by blast
  with ButtonTemplate t show ?thesis by (simp add: call_Some ButtonTemplate_Source_def)
next
  case (GenericTemplate x)
  with assms obtain t where t: "x = Some t" "Elements_set (gt_Elements t)"
    by (auto split: option.splits)
  then obtain r where "Source_each (call Element_Source) (gt_Elements t) None = Inr r"
    using Elements_return by blast
  with GenericTemplate t show ?thesis by (simp add: call_Some GenericTemplate_Source_def)
next
  case (ListTemplate x)
  with assms obtain t where t: "x = Some t" "Elements_set (lt_Elements t)"
      "Buttons_set (lt_Buttons t)"
    by (auto split: option.splits)
  then obtain r where r: "Source_each (call Element_Source) (lt_Elements t) None = Inr r"
    using Elements_return by blast
  from t obtain r' where "Source_each (call Button_Source) (lt_Buttons t) None = Inr r'"
    using Buttons_return by blast
  with r ListTemplate t show ?thesis by (simp add: call_Some ListTemplate_Source_def Let_def)
qed

lemma QuickReplies_return:
  "no_nil qs \<Longrightarrow> \<exists>r. Source_each (call QuickReply_Source) qs acc = Inr r"
proof (rule Source_each_returns)
  fix x assume "no_nil qs" "x \<in> set qs"
  then obtain q where "x = Some q" by (auto simp: no_nil_def list_all_iff)
  then show "\<exists>v. call QuickReply_Source x = Inr v"
    using QuickReply_Source_returns [of q] by (simp add: call_Some)
qed

lemma Message_Source_returns:
  assumes "Message_set m"
  shows "\<exists>v. Message_Source m = Inr v"
proof -
  from assms obtain to where to: "m_To m = Some to" by (auto simp: Message_set_def)
  obtain toSrc where toSrc: "Recipient_Source to = Inr toSrc"
    using Recipient_Source_returns by metis
  from assms obtain r where r: "Source_each (call QuickReply_Source) (m_QuickReplies m) None = Inr r"
    using QuickReplies_return unfolding Message_set_def by blast
  show ?thesis
  proof (cases "m_Attachment m")
    case None
    with to toSrc r show ?thesis by (simp add: Message_Source_def call_Some Let_def)
  next
    case (Some a)
    with assms have "Attachment_set a" by (simp add: Message_set_def)
    then obtain v where "Attachment_Source a = Inr v" using Attachment_Source_returns by blast
    with Some to toSrc r show ?thesis by (simp add: Message_Source_def call_Some Let_def)
  qed
qed

lemma QuickReplies_fail:
  assumes "Source_each (call QuickReply_Source) qs acc = Inl e"
  shows "e = NilDereference \<and> None \<in> set qs"
proof -
  from Source_each_cases [of "call QuickReply_Source" qs acc] assms
  obtain x where x: "x \<in> set qs" "call QuickReply_Source x = Inl e" by auto
  show ?thesis
  proof (cases x)
    case None
    with x show ?thesis by (auto simp: call_def)
  next
    case (Some q)
    with x QuickReply_Source_returns [of q] show ?thesis by (auto simp: call_def)
  qed
qed

lemma text_branch:
  assumes "m_Text m \<noteq> []" "m_To m = Some to" "Recipient_Source to = Inr toSrc"
    "m_QuickReplies m \<noteq> [] \<Longrightarrow> Source_each (call QuickReply_Source) (m_QuickReplies m) None = Inr r"
  shows "\<exists>v. Message_Source m = Inr v
      \<and> src_at v [''message'', ''text''] = Some (VString (m_Text m))
      \<and> src_at v [''message'', ''attachment''] = None"
  using assms
  by (cases "m_QuickReplies m = []") (simp_all add: Message_Source_def call_Some Let_def field_def)

section \<open>Text and attachment together\<close>

text \<open>
  C2. A message with a non-empty text and an attachment renders as the same message
  without the attachment: the attachment is never looked at. Whenever the rendering
  returns a tree, its message object has the text under \<^verbatim>\<open>text\<close> and no
  \<^verbatim>\<open>attachment\<close> key. It returns whenever the recipient is set and no quick reply
  in the list is a nil pointer, and those two are the only ways it can fail (with the
  nil-dereference panic); the combination of text and attachment never makes it fail.
\<close>

theorem text_wins_over_attachment:
  assumes "m_Text m \<noteq> []" and "m_Attachment m = Some a"
  shows "Message_Source m = Message_Source (m\<lparr>m_Attachment := None\<rparr>)
     \<and> (m_To m \<noteq> None \<and> no_nil (m_QuickReplies m) \<longrightarrow> (\<exists>v. Message_Source m = Inr v))
     \<and> (\<forall>v. Message_Source m = Inr v \<longrightarrow>
            src_at v [''message'', ''text''] = Some (VString (m_Text m))
          \<and> src_at v [''message'', ''attachment''] = None)
     \<and> (\<forall>e. Message_Source m = Inl e \<longrightarrow>
            e = NilDereference \<and> (m_To m = None \<or> None \<in> set (m_QuickReplies m)))"
proof (cases "m_To m")
  case None
  with assms show ?thesis by (simp add: Message_Source_def call_def)
next
  case (Some to)
  obtain toSrc where toSrc: "Recipient_Source to = Inr (VMap toSrc)"
    using Recipient_Source_returns by blast
  have same: "Message_Source m = Message_Source (m\<lparr>m_Attachment := None\<rparr>)"
    using assms Some toSrc
    by (simp add: Message_Source_def call_Some Let_def cong: sum.case_cong if_cong)
  show ?thesis
  proof (cases "Source_each (call QuickReply_Source) (m_QuickReplies m) None")
    case (Inr r)
    with text_branch [OF assms(1) Some toSrc] obtain v where
      "Message_Source m = Inr v"
      "src_at v [''message'', ''text''] = Some (VString (m_Text m))"
      "src_at v [''message'', ''attachment''] = None"
      by blast
    then have "(m_To m \<noteq> None \<and> no_nil (m_QuickReplies m) \<longrightarrow> (\<exists>v. Message_Source m = Inr v))
     \<and> (\<forall>v. Message_Source m = Inr v \<longrightarrow>
            src_at v [''message'', ''text''] = Some (VString (m_Text m))
          \<and> src_at v [''message'', ''attachment''] = None)
     \<and> (\<forall>e. Message_Source m = Inl e \<longrightarrow>
            e = NilDereference \<and> (m_To m = None \<or> None \<in> set (m_QuickReplies m)))"
      by simp
    with same show ?thesis by blast
  next
    case (Inl e)
    from QuickReplies_fail [OF Inl] have e: "e = NilDereference" "None \<in> set (m_QuickReplies m)"
      by simp_all
    then have "m_QuickReplies m \<noteq> []" by auto
    with Inl e assms Some toSrc have "Message_Source m = Inl NilDereference"
      by (simp add: Message_Source_def call_Some Let_def)
    with e have "(m_To m \<noteq> None \<and> no_nil (m_QuickReplies m) \<longrightarrow> (\<exists>v. Message_Source m = Inr v))
     \<and> (\<forall>v. Message_Source m = Inr v \<longrightarrow>
            src_at v [''message'', ''text''] = Some (VString (m_Text m))
          \<and> src_at v [''message'', ''attachment''] = None)
     \<and> (\<forall>e. Message_Source m = Inl e \<longrightarrow>
            e = NilDereference \<and> (m_To m = None \<or> None \<in> set (m_QuickReplies m)))"
      by (simp add: no_nil_iff)
    with same show ?thesis by blast
  qed
qed

theorem text_wins_over_attachment_witness:
  "Message_Source \<lparr>m_To = Some (User ''U1''), m_Text = ''hi'',
      m_Attachment = Some (GenericTemplate (Some \<lparr>gt_Elements = [None]\<rparr>)),
      m_QuickReplies = [], m_Metadata = [], m_NotificationType = []\<rparr>
   = Inr (VMap [''recipient'' \<mapsto> VMap [''id'' \<mapsto> VString ''U1''],
                ''message'' \<mapsto> VMap [''text'' \<mapsto> VString ''hi'']])
   \<and> Message_Source \<lparr>m_To = Some (User ''U1''), m_Text = ''hi'',
      m_Attachment = Some (GenericTemplate (Some \<lparr>gt_Elements = [None]\<rparr>)),
      m_QuickReplies = [], m_Metadata = [], m_NotificationType = []\<rparr>
   = Message_Source \<lparr>m_To = Some (User ''U1''), m_Text = ''hi'',
      m_Attachment = None,
      m_QuickReplies = [], m_Metadata = [], m_NotificationType = []\<rparr>"
  using text_wins_over_attachment [of "\<lparr>m_To = Some (User ''U1''), m_Text = ''hi'',
      m_Attachment = Some (GenericTemplate (Some \<lparr>gt_Elements = [None]\<rparr>)),
      m_QuickReplies = [], m_Metadata = [], m_NotificationType = []\<rparr>"
      "GenericTemplate (Some \<lparr>gt_Elements = [None]\<rparr>)"]
  by (simp add: Message_Source_def call_def User_Source_def Let_def)

section \<open>Rendering: how a call fails\<close>

lemma Source_each_fails_with:
  assumes "\<And>x e. x \<in> set xs \<Longrightarrow> f x = Inl e \<Longrightarrow> e = NilDereference"
    and "Source_each f xs acc = Inl e"
  shows "e = NilDereference"
  using Source_each_cases [of f xs acc] assms by auto

lemma call_fails_with:
  assumes "\<And>x e. f x = Inl e \<Longrightarrow> e = NilDereference" and "call f p = Inl e"
  shows "e = NilDereference"
  using assms by (cases p) (auto simp: call_def)

lemma Button_Source_fails_with: "Button_Source b = Inl e \<Longrightarrow> e = NilDereference"
  by (cases b)
    (auto simp: call_def URLButton_Source_def PostbackButton_Source_def CallButton_Source_def
      ShareButton_Source_def AccountLinkButton_Source_def AccountUnlinkButton_Source_def Let_def
      split: option.splits)

lemma Buttons_fail_with:
  "Source_each (call Button_Source) bs acc = Inl e \<Longrightarrow> e = NilDereference"
  by (erule Source_each_fails_with [rotated]) (erule call_fails_with [rotated], erule Button_Source_fails_with)

lemma Element_Source_fails_with:
  assumes "Element_Source el = Inl e"
  shows "e = NilDereference"
  using assms
  by (auto simp: Element_Source_def Let_def split: if_splits sum.splits option.splits
      dest: Buttons_fail_with Button_Source_fails_with)

lemma Elements_fail_with:
  "Source_each (call Element_Source) es acc = Inl e \<Longrightarrow> e = NilDereference"
  by (erule Source_each_fails_with [rotated]) (erule call_fails_with [rotated], erule Element_Source_fails_with)

lemma Attachment_Source_fails_with:
  assumes "Attachment_Source a = Inl e"
  shows "e = NilDereference"
  using assms
  by (cases a)
    (auto simp: call_def MultimediaAttachment_Source_def ButtonTemplate_Source_def
      GenericTemplate_Source_def ListTemplate_Source_def Let_def
      split: if_splits sum.splits option.splits dest: Buttons_fail_with Elements_fail_with)

lemma Recipient_Source_fails_with: "Recipient_Source r = Inl e \<Longrightarrow> e = NilDereference"
  using Recipient_Source_returns [of r] by auto

lemma Message_Source_fails_with:
  assumes "Message_Source m = Inl e"
  shows "e = NilDereference"
proof (cases "m_To m")
  case None
  with assms show ?thesis by (simp add: Message_Source_def call_def)
next
  case (Some to)
  obtain toSrc where "Recipient_Source to = Inr toSrc"
    using Recipient_Source_returns by metis
  with assms Some show ?thesis
    by (auto simp: Message_Source_def call_Some Let_def QuickReply_Source_def
        split: if_splits sum.splits option.splits
        dest: QuickReplies_fail Attachment_Source_fails_with)
qed

lemma Source_fails_with: "Source x = Inl e \<Longrightarrow> e = NilDereference"
  by (cases x)
    (auto simp: call_def QuickReply_Source_def Let_def split: option.splits
      dest: Recipient_Source_fails_with Message_Source_fails_with Attachment_Source_fails_with
        Element_Source_fails_with Button_Source_fails_with)

lemma Source_returns:
  assumes "all_set x"
  shows "\<exists>v. Source x = Inr v"
proof (cases x)
  case (Recipient_Object p)
  with assms obtain r where "p = Some r" by auto
  with Recipient_Object show ?thesis
    using Recipient_Source_returns [of r] by (auto simp: call_Some)
next
  case (Message_Object p)
  with assms obtain m where "p = Some m" "Message_set m" by (auto split: option.splits)
  with Message_Object show ?thesis using Message_Source_returns [of m] by (simp add: call_Some)
next
  case (QuickReply_Object p)
  with assms obtain qr where "p = Some qr" by auto
  with QuickReply_Object show ?thesis
    using QuickReply_Source_returns [of qr] by (simp add: call_Some)
next
  case (Attachment_Object a)
  with assms show ?thesis using Attachment_Source_returns [of a] by simp
next
  case (Element_Object p)
  with assms obtain e where "p = Some e" "Element_set e" by (auto split: option.splits)
  with Element_Object show ?thesis using Element_Source_returns [of e] by (simp add: call_Some)
next
  case (Button_Object b)
  with assms show ?thesis using Button_Source_returns [of b] by simp
qed

section \<open>Empty lists of buttons and elements\<close>

text \<open>
  C9. A button template with no buttons and a generic or list template with no elements
  still render the key \<^verbatim>\<open>buttons\<close> (\<^verbatim>\<open>elements\<close>) in the payload; its value is
  the nil slice, which \<^verbatim>\<open>encoding/json\<close> writes as \<^verbatim>\<open>null\<close>, not as the empty
  array it writes for an empty slice that is not nil. The button and the generic
  template always return then; the list template returns when none of its own buttons is
  nil or holds a nil pointer, and whenever it returns the \<^verbatim>\<open>elements\<close> key holds the
  nil slice.
\<close>

theorem empty_lists_render_null:
  "(bt_Buttons bt = [] \<longrightarrow>
      (\<exists>v. ButtonTemplate_Source bt = Inr v
         \<and> src_at v [''payload'', ''buttons''] = Some (VSlice None)
         \<and> json_at (marshal v) [''payload'', ''buttons''] = Some JNull))
   \<and> (gt_Elements gt = [] \<longrightarrow>
      (\<exists>v. GenericTemplate_Source gt = Inr v
         \<and> src_at v [''payload'', ''elements''] = Some (VSlice None)
         \<and> json_at (marshal v) [''payload'', ''elements''] = Some JNull))
   \<and> (lt_Elements lt = [] \<and> Buttons_set (lt_Buttons lt) \<longrightarrow>
      (\<exists>v. ListTemplate_Source lt = Inr v))
   \<and> (lt_Elements lt = [] \<longrightarrow>
      (\<forall>v. ListTemplate_Source lt = Inr v \<longrightarrow>
           src_at v [''payload'', ''elements''] = Some (VSlice None)
         \<and> json_at (marshal v) [''payload'', ''elements''] = Some JNull))
   \<and> marshal (VSlice None) \<noteq> marshal (VSlice (Some []))"
proof (intro conjI impI allI)
  assume "bt_Buttons bt = []"
  then show "\<exists>v. ButtonTemplate_Source bt = Inr v
         \<and> src_at v [''payload'', ''buttons''] = Some (VSlice None)
         \<and> json_at (marshal v) [''payload'', ''buttons''] = Some JNull"
    by (simp add: ButtonTemplate_Source_def field_def jfield_def)
next
  assume "gt_Elements gt = []"
  then show "\<exists>v. GenericTemplate_Source gt = Inr v
         \<and> src_at v [''payload'', ''elements''] = Some (VSlice None)
         \<and> json_at (marshal v) [''payload'', ''elements''] = Some JNull"
    by (simp add: GenericTemplate_Source_def field_def jfield_def)
next
  assume "lt_Elements lt = [] \<and> Buttons_set (lt_Buttons lt)"
  then have "Attachment_set (ListTemplate (Some lt))" by (simp add: Elements_set_def)
  from Attachment_Source_returns [OF this] show "\<exists>v. ListTemplate_Source lt = Inr v"
    by (simp add: call_Some)
next
  fix v
  assume "lt_Elements lt = []" "ListTemplate_Source lt = Inr v"
  then show "src_at v [''payload'', ''elements''] = Some (VSlice None)"
    by (auto simp: ListTemplate_Source_def Let_def field_def split: if_splits sum.splits)
next
  fix v
  assume "lt_Elements lt = []" "ListTemplate_Source lt = Inr v"
  then show "json_at (marshal v) [''payload'', ''elements''] = Some JNull"
    by (auto simp: ListTemplate_Source_def Let_def jfield_def split: if_splits sum.splits)
next
  show "marshal (VSlice None) \<noteq> marshal (VSlice (Some []))" by simp
qed

theorem empty_lists_render_null_witness:
  "ButtonTemplate_Source \<lparr>bt_Text = ''pick'', bt_Buttons = []\<rparr>
     = Inr (VMap [''type'' \<mapsto> VString ''template'',
                  ''payload'' \<mapsto> VMap [''template_type'' \<mapsto> VString ''button'',
                                        ''text'' \<mapsto> VString ''pick'',
                                        ''buttons'' \<mapsto> VSlice None]])
   \<and> GenericTemplate_Source \<lparr>gt_Elements = []\<rparr>
     = Inr (VMap [''type'' \<mapsto> VString ''template'',
                  ''payload'' \<mapsto> VMap [''template_type'' \<mapsto> VString ''generic'',
                                        ''elements'' \<mapsto> VSlice None]])
   \<and> ListTemplate_Source \<lparr>lt_Elements = [], lt_TopElementStyle = [], lt_Buttons = []\<rparr>
     = Inr (VMap [''type'' \<mapsto> VString ''template'',
                  ''payload'' \<mapsto> VMap [''template_type'' \<mapsto> VString ''list'',
                                        ''elements'' \<mapsto> VSlice None]])"
  using empty_lists_render_null [of "\<lparr>bt_Text = ''pick'', bt_Buttons = []\<rparr>"
      "\<lparr>gt_Elements = []\<rparr>"
      "\<lparr>lt_Elements = [], lt_TopElementStyle = [], lt_Buttons = []\<rparr>"]
  by (simp add: ButtonTemplate_Source_def GenericTemplate_Source_def ListTemplate_Source_def
      Let_def)

section \<open>Optional fields left unset\<close>

text \<open>
  C8. For every variant that has optional fields, the rendering with all of them unset
  is given exactly, so the keys of the optional fields are not in the tree at all: a
  message with only its recipient renders the recipient and an empty message object; a
  quick reply renders only \<^verbatim>\<open>content_type\<close>, which every quick reply has
  (\<^verbatim>\<open>location\<close> or \<^verbatim>\<open>text\<close>); a multimedia attachment sent by URL without the
  reusable flag renders \<^verbatim>\<open>type\<close> and the payload's \<^verbatim>\<open>url\<close> only; a list
  template without style and buttons renders \<^verbatim>\<open>template_type\<close> and
  \<^verbatim>\<open>elements\<close>; an element renders its title only; a URL button renders
  \<^verbatim>\<open>type\<close>, \<^verbatim>\<open>title\<close> and \<^verbatim>\<open>url\<close>. The other variants have no optional
  field. Rendering is a function of the value alone, so the same value always renders
  to the same tree.
\<close>

theorem unset_optional_fields_are_omitted:
  "(\<exists>toSrc. Recipient_Source r = Inr toSrc
      \<and> Message_Source \<lparr>m_To = Some r, m_Text = [], m_Attachment = None, m_QuickReplies = [],
            m_Metadata = [], m_NotificationType = []\<rparr>
        = Inr (VMap [''recipient'' \<mapsto> toSrc, ''message'' \<mapsto> VMap Map.empty]))
   \<and> QuickReply_Source \<lparr>qr_Title = [], qr_ImageURL = [], qr_Payload = [],
          qr_AskForLocation = loc\<rparr>
       = Inr (VMap [''content_type'' \<mapsto> VString (if loc then ''location'' else ''text'')])
   \<and> (\<exists>v. QuickReply_Source qr = Inr v
          \<and> field v ''content_type''
              = Some (VString (if qr_AskForLocation qr then ''location'' else ''text'')))
   \<and> MultimediaAttachment_Source \<lparr>a_Type = ty, a_URL = u, a_AttachmentID = [],
          a_Reusable = False\<rparr>
       = Inr (VMap [''type'' \<mapsto> VString ty, ''payload'' \<mapsto> VMap [''url'' \<mapsto> VString u]])
   \<and> ListTemplate_Source \<lparr>lt_Elements = es, lt_TopElementStyle = [], lt_Buttons = []\<rparr>
       = (case Source_each (call Element_Source) es None of
            Inl err \<Rightarrow> Inl err
          | Inr elementSrcs \<Rightarrow>
              Inr (VMap [''type'' \<mapsto> VString ''template'',
                         ''payload'' \<mapsto> VMap [''template_type'' \<mapsto> VString ''list'',
                                               ''elements'' \<mapsto> VSlice elementSrcs]]))
   \<and> Element_Source \<lparr>e_Title = t, e_Subtitle = [], e_ItemURL = [], e_ImageURL = [],
          e_Buttons = [], e_DefaultAction = None\<rparr>
       = Inr (VMap [''title'' \<mapsto> VString t])
   \<and> URLButton_Source \<lparr>ub_Title = t', ub_URL = u', ub_WebviewHeightRatio = [],
          ub_MessengerExtensions = False, ub_FallbackURL = []\<rparr>
       = Inr (VMap [''type'' \<mapsto> VString ''web_url'', ''title'' \<mapsto> VString t',
                    ''url'' \<mapsto> VString u'])"
proof (intro conjI)
  obtain m where "Recipient_Source r = Inr (VMap m)" using Recipient_Source_returns by blast
  then show "\<exists>toSrc. Recipient_Source r = Inr toSrc
      \<and> Message_Source \<lparr>m_To = Some r, m_Text = [], m_Attachment = None, m_QuickReplies = [],
            m_Metadata = [], m_NotificationType = []\<rparr>
        = Inr (VMap [''recipient'' \<mapsto> toSrc, ''message'' \<mapsto> VMap Map.empty])"
    by (simp add: Message_Source_def call_Some Let_def)
next
  show "QuickReply_Source \<lparr>qr_Title = [], qr_ImageURL = [], qr_Payload = [],
          qr_AskForLocation = loc\<rparr>
       = Inr (VMap [''content_type'' \<mapsto> VString (if loc then ''location'' else ''text'')])"
    by (simp add: QuickReply_Source_def Let_def)
next
  show "\<exists>v. QuickReply_Source qr = Inr v
          \<and> field v ''content_type''
              = Some (VString (if qr_AskForLocation qr then ''location'' else ''text''))"
    by (simp add: QuickReply_Source_def Let_def field_def)
next
  show "MultimediaAttachment_Source \<lparr>a_Type = ty, a_URL = u, a_AttachmentID = [],
          a_Reusable = False\<rparr>
       = Inr (VMap [''type'' \<mapsto> VString ty, ''payload'' \<mapsto> VMap [''url'' \<mapsto> VString u]])"
    by (simp add: MultimediaAttachment_Source_def Let_def)
next
  show "ListTemplate_Source \<lparr>lt_Elements = es, lt_TopElementStyle = [], lt_Buttons = []\<rparr>
       = (case Source_each (call Element_Source) es None of
            Inl err \<Rightarrow> Inl err
          | Inr elementSrcs \<Rightarrow>
              Inr (VMap [''type'' \<mapsto> VString ''template'',
                         ''payload'' \<mapsto> VMap [''template_type'' \<mapsto> VString ''list'',
                                               ''elements'' \<mapsto> VSlice elementSrcs]]))"
    by (simp add: ListTemplate_Source_def Let_def split: sum.splits)
next
  show "Element_Source \<lparr>e_Title = t, e_Subtitle = [], e_ItemURL = [], e_ImageURL = [],
          e_Buttons = [], e_DefaultAction = None\<rparr>
       = Inr (VMap [''title'' \<mapsto> VString t])"
    by (simp add: Element_Source_def Let_def)
next
  show "URLButton_Source \<lparr>ub_Title = t', ub_URL = u', ub_WebviewHeightRatio = [],
          ub_MessengerExtensions = False, ub_FallbackURL = []\<rparr>
       = Inr (VMap [''type'' \<mapsto> VString ''web_url'', ''title'' \<mapsto> VString t',
                    ''url'' \<mapsto> VString u'])"
    by (simp add: URLButton_Source_def Let_def)
qed

section \<open>Rendering never returns an error\<close>

text \<open>
  C10, as the code has it. Take a value of the object model, itself not a nil pointer,
  in which the recipient is set, no entry of a list of buttons, elements or quick
  replies is nil, and every interface-typed child that is not nil holds a pointer that
  is not nil (a nil attachment and a nil default action are skipped by their nil checks;
  the two field-less buttons render through a nil pointer too). For every such value
  \<^verbatim>\<open>Source\<close> returns a tree and a nil error. For every value whatsoever
  \<^verbatim>\<open>Source\<close> never returns a non-nil error: the only way it does not return a
  tree is the nil-dereference panic. So an error that \<^verbatim>\<open>SendMessage\<close> returns
  always comes from \<^verbatim>\<open>send\<close>, never from the rendering.
\<close>

theorem Source_returns_nil_error:
  "(all_set x \<longrightarrow> (\<exists>v. Source x = Inr v))
   \<and> (\<forall>e. Source x \<noteq> Inl (Error e))
   \<and> (\<forall>e. SendMessage n s m = Inl (Error e) \<longrightarrow>
        (\<exists>src. Message_Source m = Inr src
           \<and> send n s src (Some zero_MessageResponse) = Inl e))"
proof (intro conjI impI allI)
  assume "all_set x"
  then show "\<exists>v. Source x = Inr v" by (rule Source_returns)
next
  fix e
  show "Source x \<noteq> Inl (Error e)" using Source_fails_with [of x "Error e"] by auto
next
  fix e
  assume sm: "SendMessage n s m = Inl (Error e)"
  show "\<exists>src. Message_Source m = Inr src \<and> send n s src (Some zero_MessageResponse) = Inl e"
  proof (cases "Message_Source m")
    case (Inl f)
    then have "f = NilDereference" by (rule Message_Source_fails_with)
    with Inl sm show ?thesis by (simp add: SendMessage_def)
  next
    case (Inr src)
    with sm show ?thesis
      by (auto simp: SendMessage_def Let_def split: sum.splits)
  qed
qed

theorem Source_returns_nil_error_witness:
  "Source (Message_Object (Some \<lparr>m_To = Some (User ''U1''), m_Text = [],
       m_Attachment = Some (ButtonTemplate (Some \<lparr>bt_Text = ''pick'',
          bt_Buttons = [Some ShareButton,
             Some (PostbackButton (Some \<lparr>pb_Title = ''Go'', pb_Payload = ''GO''\<rparr>))]\<rparr>)),
       m_QuickReplies = [], m_Metadata = [], m_NotificationType = []\<rparr>))
   = Inr (VMap [''recipient'' \<mapsto> VMap [''id'' \<mapsto> VString ''U1''],
        ''message'' \<mapsto> VMap [''attachment'' \<mapsto>
           VMap [''type'' \<mapsto> VString ''template'',
                 ''payload'' \<mapsto> VMap [''template_type'' \<mapsto> VString ''button'',
                    ''text'' \<mapsto> VString ''pick'',
                    ''buttons'' \<mapsto> VSlice (Some [VMap [''type'' \<mapsto> VString ''element_share''],
                       VMap [''type'' \<mapsto> VString ''postback'', ''title'' \<mapsto> VString ''Go'',
                             ''payload'' \<mapsto> VString ''GO'']])]]]])
   \<and> SendMessage
        \<lparr>json_Marshal = (\<lambda>v. Inr ''{}''), http_NewRequest = (\<lambda>u. None),
         client_Do = (\<lambda>b. Inl (ErrorString ''connection refused'')),
         json_Unmarshal_errResp = (\<lambda>b. Inl (ErrorString ''unexpected end of JSON input'')),
         json_Decode_resp = (\<lambda>b. Inl (ErrorString ''EOF''))\<rparr>
        \<lparr>accessToken = ''T'', endpoint = ''https://graph.facebook.com/v2.6/me/messages''\<rparr>
        \<lparr>m_To = Some (User ''U1''), m_Text = ''hi'', m_Attachment = None,
         m_QuickReplies = [], m_Metadata = [], m_NotificationType = []\<rparr>
      = Inl (Error (ErrorString ''connection refused''))
   \<and> (\<exists>src. Message_Source \<lparr>m_To = Some (User ''U1''), m_Text = ''hi'', m_Attachment = None,
         m_QuickReplies = [], m_Metadata = [], m_NotificationType = []\<rparr> = Inr src
        \<and> send
        \<lparr>json_Marshal = (\<lambda>v. Inr ''{}''), http_NewRequest = (\<lambda>u. None),
         client_Do = (\<lambda>b. Inl (ErrorString ''connection refused'')),
         json_Unmarshal_errResp = (\<lambda>b. Inl (ErrorString ''unexpected end of JSON input'')),
         json_Decode_resp = (\<lambda>b. Inl (ErrorString ''EOF''))\<rparr>
        \<lparr>accessToken = ''T'', endpoint = ''https://graph.facebook.com/v2.6/me/messages''\<rparr>
        src (Some zero_MessageResponse) = Inl (ErrorString ''connection refused''))"
  using Source_returns_nil_error [of "Message_Object (Some \<lparr>m_To = Some (User ''U1''), m_Text = [],
       m_Attachment = Some (ButtonTemplate (Some \<lparr>bt_Text = ''pick'',
          bt_Buttons = [Some ShareButton,
             Some (PostbackButton (Some \<lparr>pb_Title = ''Go'', pb_Payload = ''GO''\<rparr>))]\<rparr>)),
       m_QuickReplies = [], m_Metadata = [], m_NotificationType = []\<rparr>)"
      "\<lparr>json_Marshal = (\<lambda>v. Inr ''{}''), http_NewRequest = (\<lambda>u. None),
         client_Do = (\<lambda>b. Inl (ErrorString ''connection refused'')),
         json_Unmarshal_errResp = (\<lambda>b. Inl (ErrorString ''unexpected end of JSON input'')),
         json_Decode_resp = (\<lambda>b. Inl (ErrorString ''EOF''))\<rparr>"
      "\<lparr>accessToken = ''T'', endpoint = ''https://graph.facebook.com/v2.6/me/messages''\<rparr>"
      "\<lparr>m_To = Some (User ''U1''), m_Text = ''hi'', m_Attachment = None,
         m_QuickReplies = [], m_Metadata = [], m_NotificationType = []\<rparr>"]
  by (simp add: Message_Source_def ButtonTemplate_Source_def call_def go_append_def
      ShareButton_Source_def PostbackButton_Source_def User_Source_def SendMessage_def
      send_def Let_def)

text \<open>
  C10 as stated asks only for the interface-typed children to be non-nil. A generic
  template whose list of elements holds a nil \<^verbatim>\<open>*Element\<close> has no nil interface
  anywhere, and rendering a message that carries it panics instead of returning. So
  does rendering an element whose default action is an interface value that is not nil
  but holds a nil \<^verbatim>\<open>*PostbackButton\<close>: it passes the test
  \<^verbatim>\<open>e.DefaultAction != nil\<close> and the button's \<^verbatim>\<open>Source\<close> dereferences it.
\<close>

theorem nil_element_pointer_panics:
  "interfaces_set (Message_Object (Some \<lparr>m_To = Some (User ''U1''), m_Text = [],
       m_Attachment = Some (GenericTemplate (Some \<lparr>gt_Elements = [None]\<rparr>)),
       m_QuickReplies = [], m_Metadata = [], m_NotificationType = []\<rparr>))
   \<and> Source (Message_Object (Some \<lparr>m_To = Some (User ''U1''), m_Text = [],
       m_Attachment = Some (GenericTemplate (Some \<lparr>gt_Elements = [None]\<rparr>)),
       m_QuickReplies = [], m_Metadata = [], m_NotificationType = []\<rparr>))
     = Inl NilDereference
   \<and> interfaces_set (Element_Object (Some \<lparr>e_Title = ''t'', e_Subtitle = [], e_ItemURL = [],
       e_ImageURL = [], e_Buttons = [], e_DefaultAction = Some (PostbackButton None)\<rparr>))
   \<and> Source (Element_Object (Some \<lparr>e_Title = ''t'', e_Subtitle = [], e_ItemURL = [],
       e_ImageURL = [], e_Buttons = [], e_DefaultAction = Some (PostbackButton None)\<rparr>))
     = Inl NilDereference"
  by (simp add: Message_interfaces_set_def Elements_interfaces_set_def
      Element_interfaces_set_def no_nil_def Message_Source_def Element_Source_def
      call_def User_Source_def GenericTemplate_Source_def Let_def)

section \<open>The sender: a status outside 200-299\<close>

lemma checkResponse_non_2xx:
  assumes "\<not> (200 \<le> StatusCode resp \<and> StatusCode resp \<le> 299)"
  shows "checkResponse n resp
     = Some (FbError
         (case Body resp of
            Inl err \<Rightarrow> \<lparr>err_Message = Error_of err, err_Type = [], err_Code = StatusCode resp,
                         err_ErrorSubcode = 0, err_FBTraceID = []\<rparr>
          | Inr slurp \<Rightarrow>
              (case json_Unmarshal_errResp n slurp of
                 Inl err \<Rightarrow> \<lparr>err_Message = Error_of err, err_Type = [],
                              err_Code = StatusCode resp, err_ErrorSubcode = 0,
                              err_FBTraceID = []\<rparr>
               | Inr errResp \<Rightarrow> errResp)))"
  using assms by (auto simp: checkResponse_def split: sum.splits)

lemma send_after_response:
  assumes "json_Marshal n src = Inr body" and "http_NewRequest n (endpoint s) = None"
    and "client_Do n body = Inr resp" and "checkResponse n resp = Some err"
  shows "send n s src dst = Inl err"
  using assms by (simp add: send_def)

text \<open>
  C6. Let the tree be marshalled, the request built and the HTTP call answered with a
  status outside 200-299. If the body is read and decodes as the error envelope,
  \<^verbatim>\<open>send\<close> returns the \<^verbatim>\<open>*fbError\<close> that is the envelope's \<^verbatim>\<open>error\<close> member,
  field for field. If the body cannot be decoded, or cannot be read, it returns an
  \<^verbatim>\<open>*fbError\<close> whose message is the message of that failure and whose code is the
  HTTP status code (the other fields are zero). In every such case \<^verbatim>\<open>send\<close>
  returns an error, for both kinds of destination, and so does \<^verbatim>\<open>SendMessage\<close>
  for a message that renders to the tree.
\<close>

theorem non_2xx_is_a_typed_error:
  assumes "json_Marshal n src = Inr body" and "http_NewRequest n (endpoint s) = None"
    and "client_Do n body = Inr resp"
    and "\<not> (200 \<le> StatusCode resp \<and> StatusCode resp \<le> 299)"
  shows "(\<forall>slurp envelope.
            Body resp = Inr slurp \<and> json_Unmarshal_errResp n slurp = Inr envelope \<longrightarrow>
            send n s src dst = Inl (FbError envelope))
     \<and> (\<forall>slurp err.
            Body resp = Inr slurp \<and> json_Unmarshal_errResp n slurp = Inl err \<longrightarrow>
            send n s src dst
              = Inl (FbError \<lparr>err_Message = Error_of err, err_Type = [],
                               err_Code = StatusCode resp, err_ErrorSubcode = 0,
                               err_FBTraceID = []\<rparr>))
     \<and> (\<forall>err.
            Body resp = Inl err \<longrightarrow>
            send n s src dst
              = Inl (FbError \<lparr>err_Message = Error_of err, err_Type = [],
                               err_Code = StatusCode resp, err_ErrorSubcode = 0,
                               err_FBTraceID = []\<rparr>))
     \<and> (\<exists>e. send n s src dst = Inl (FbError e))
     \<and> (\<forall>m. Message_Source m = Inr src \<longrightarrow>
            (\<exists>e. SendMessage n s m = Inl (Error (FbError e))))"
proof -
  let ?e = "case Body resp of
            Inl err \<Rightarrow> \<lparr>err_Message = Error_of err, err_Type = [], err_Code = StatusCode resp,
                         err_ErrorSubcode = 0, err_FBTraceID = []\<rparr>
          | Inr slurp \<Rightarrow>
              (case json_Unmarshal_errResp n slurp of
                 Inl err \<Rightarrow> \<lparr>err_Message = Error_of err, err_Type = [],
                              err_Code = StatusCode resp, err_ErrorSubcode = 0,
                              err_FBTraceID = []\<rparr>
               | Inr errResp \<Rightarrow> errResp)"
  have sent: "send n s src d = Inl (FbError ?e)" for d
    using send_after_response [OF assms(1-3) checkResponse_non_2xx [OF assms(4)]] .
  have "SendMessage n s m = Inl (Error (FbError ?e))" if "Message_Source m = Inr src" for m
    using that sent [of "Some zero_MessageResponse"] by (simp add: SendMessage_def Let_def)
  with sent [of dst] show ?thesis by auto
qed

theorem non_2xx_is_a_typed_error_witness:
  "send \<lparr>json_Marshal = (\<lambda>v. Inr ''{}''), http_NewRequest = (\<lambda>u. None),
         client_Do = (\<lambda>b. Inr \<lparr>StatusCode = 400, Body = Inr ''envelope''\<rparr>),
         json_Unmarshal_errResp =
           (\<lambda>b. Inr \<lparr>err_Message = ''Invalid OAuth access token.'',
                       err_Type = ''OAuthException'', err_Code = 190,
                       err_ErrorSubcode = 1234567, err_FBTraceID = ''BLBz/WZt8dN''\<rparr>),
         json_Decode_resp = (\<lambda>b. Inl (ErrorString ''EOF''))\<rparr>
        \<lparr>accessToken = ''T'', endpoint = ''https://graph.facebook.com/v2.6/me/messages''\<rparr>
        (VMap Map.empty) None
     = Inl (FbError \<lparr>err_Message = ''Invalid OAuth access token.'',
                      err_Type = ''OAuthException'', err_Code = 190,
                      err_ErrorSubcode = 1234567, err_FBTraceID = ''BLBz/WZt8dN''\<rparr>)
   \<and> send \<lparr>json_Marshal = (\<lambda>v. Inr ''{}''), http_NewRequest = (\<lambda>u. None),
         client_Do = (\<lambda>b. Inr \<lparr>StatusCode = 502, Body = Inr ''<html>''\<rparr>),
         json_Unmarshal_errResp =
           (\<lambda>b. Inl (ErrorString ''invalid character < looking for beginning of value'')),
         json_Decode_resp = (\<lambda>b. Inl (ErrorString ''EOF''))\<rparr>
        \<lparr>accessToken = ''T'', endpoint = ''https://graph.facebook.com/v2.6/me/messages''\<rparr>
        (VMap Map.empty) None
     = Inl (FbError \<lparr>err_Message = ''invalid character < looking for beginning of value'',
                      err_Type = [], err_Code = 502, err_ErrorSubcode = 0,
                      err_FBTraceID = []\<rparr>)"
  using non_2xx_is_a_typed_error [of
      "\<lparr>json_Marshal = (\<lambda>v. Inr ''{}''), http_NewRequest = (\<lambda>u. None),
         client_Do = (\<lambda>b. Inr \<lparr>StatusCode = 400, Body = Inr ''envelope''\<rparr>),
         json_Unmarshal_errResp =
           (\<lambda>b. Inr \<lparr>err_Message = ''Invalid OAuth access token.'',
                       err_Type = ''OAuthException'', err_Code = 190,
                       err_ErrorSubcode = 1234567, err_FBTraceID = ''BLBz/WZt8dN''\<rparr>),
         json_Decode_resp = (\<lambda>b. Inl (ErrorString ''EOF''))\<rparr>"
      "VMap Map.empty" "''{}''"
      "\<lparr>accessToken = ''T'', endpoint = ''https://graph.facebook.com/v2.6/me/messages''\<rparr>"
      "\<lparr>StatusCode = 400, Body = Inr ''envelope''\<rparr>" None]
    non_2xx_is_a_typed_error [of
      "\<lparr>json_Marshal = (\<lambda>v. Inr ''{}''), http_NewRequest = (\<lambda>u. None),
         client_Do = (\<lambda>b. Inr \<lparr>StatusCode = 502, Body = Inr ''<html>''\<rparr>),
         json_Unmarshal_errResp =
           (\<lambda>b. Inl (ErrorString ''invalid character < looking for beginning of value'')),
         json_Decode_resp = (\<lambda>b. Inl (ErrorString ''EOF''))\<rparr>"
      "VMap Map.empty" "''{}''"
      "\<lparr>accessToken = ''T'', endpoint = ''https://graph.facebook.com/v2.6/me/messages''\<rparr>"
      "\<lparr>StatusCode = 502, Body = Inr ''<html>''\<rparr>" None]
  by simp

section \<open>The webhook: verification\<close>

text \<open>
  C5. For a GET request on a fresh exchange: when the value of
  \<^verbatim>\<open>hub.verify_token\<close> is not in the configured set, the listener gets exactly one
  event, \<^verbatim>\<open>VerificationFailed\<close> with that token and \<^verbatim>\<open>ErrVerifyTokenMismatch\<close>,
  and the response is 403 with nothing written; otherwise it gets exactly one
  \<^verbatim>\<open>VerificationCompleted\<close> with the value of \<^verbatim>\<open>hub.challenge\<close>, and the response
  is 200 with exactly that value as its body. With an empty set every request is
  answered 403.
\<close>

theorem verification_outcome:
  assumes "Method r = ''GET''"
  shows "WebhookHandler unmarshal wh r fresh =
     (if Get (Query r) ''hub.verify_token'' \<notin> verifyTokens wh
      then \<lparr>events = [VerificationFailed \<lparr>Token = Get (Query r) ''hub.verify_token'',
                                           Err = ErrVerifyTokenMismatch\<rparr>],
            status = Some 403, written = [], panicked = False\<rparr>
      else \<lparr>events = [VerificationCompleted \<lparr>Challenge = Get (Query r) ''hub.challenge''\<rparr>],
            status = Some 200, written = Get (Query r) ''hub.challenge'',
            panicked = False\<rparr>)
     \<and> (verifyTokens wh = {} \<longrightarrow> status (WebhookHandler unmarshal wh r fresh) = Some 403)"
  using assms
  by (simp add: WebhookHandler_def handleVerification_def fresh_def emitEvent_def
      WriteHeader_def Write_def Let_def)

theorem verification_outcome_witness:
  "WebhookHandler (\<lambda>b. Inl (ErrorString ''unused'')) \<lparr>verifyTokens = {''good''}\<rparr>
     \<lparr>Method = ''GET'',
      Query = (\<lambda>k. if k = ''hub.verify_token'' then [''good'']
                    else if k = ''hub.challenge'' then [''1158201444''] else []),
      RequestBody = Inr []\<rparr> fresh
   = \<lparr>events = [VerificationCompleted \<lparr>Challenge = ''1158201444''\<rparr>],
      status = Some 200, written = ''1158201444'', panicked = False\<rparr>
   \<and> WebhookHandler (\<lambda>b. Inl (ErrorString ''unused'')) \<lparr>verifyTokens = {}\<rparr>
     \<lparr>Method = ''GET'',
      Query = (\<lambda>k. if k = ''hub.verify_token'' then [''bad'']
                    else if k = ''hub.challenge'' then [''1158201444''] else []),
      RequestBody = Inr []\<rparr> fresh
   = \<lparr>events = [VerificationFailed \<lparr>Token = ''bad'',
                                       Err = ErrorString ''verify token mismatch''\<rparr>],
      status = Some 403, written = [], panicked = False\<rparr>"
  using verification_outcome [of "\<lparr>Method = ''GET'',
      Query = (\<lambda>k. if k = ''hub.verify_token'' then [''good'']
                    else if k = ''hub.challenge'' then [''1158201444''] else []),
      RequestBody = Inr []\<rparr>" "(\<lambda>b. Inl (ErrorString ''unused''))" "\<lparr>verifyTokens = {''good''}\<rparr>"]
    verification_outcome [of "\<lparr>Method = ''GET'',
      Query = (\<lambda>k. if k = ''hub.verify_token'' then [''bad'']
                    else if k = ''hub.challenge'' then [''1158201444''] else []),
      RequestBody = Inr []\<rparr>" "(\<lambda>b. Inl (ErrorString ''unused''))" "\<lparr>verifyTokens = {}\<rparr>"]
  by (simp add: Get_def ErrVerifyTokenMismatch_def)

section \<open>The webhook: callbacks\<close>

lemma kind_of_callback_Event: "kind_of (callback_Event cb pageID) = first_match cb"
  by (simp add: callback_Event_def first_match_def precedence_def Let_def
      split: option.splits)

lemma metadata_of_callback_Event:
  "metadata_of (callback_Event cb pageID)
     = Some \<lparr>PageID = pageID, SenderID = cb_Sender_ID cb, RecipientID = cb_Recipient_ID cb,
             Timestamp = cb_Timestamp cb\<rparr>"
  by (simp add: callback_Event_def Let_def split: option.splits)

text \<open>
  The inner loop, for any list: it emits the events of the callbacks before the first
  nil pointer, in order, and panics exactly when there is a nil pointer.
\<close>

lemma emit_callbacks_events:
  "events (emit_callbacks pageID cbs w)
     = events w @ [callback_Event cb pageID. Some cb \<leftarrow> takeWhile (\<lambda>c. c \<noteq> None) cbs]"
proof (induction cbs arbitrary: w)
  case Nil
  then show ?case by simp
next
  case (Cons c cbs)
  then show ?case by (cases c) (simp_all add: emitEvent_def)
qed

lemma emit_callbacks_panicked:
  "panicked (emit_callbacks pageID cbs w) = (panicked w \<or> \<not> no_nil cbs)"
proof (induction cbs arbitrary: w)
  case Nil
  then show ?case by (simp add: no_nil_def)
next
  case (Cons c cbs)
  then show ?case by (cases c) (simp_all add: emitEvent_def no_nil_def)
qed

lemma emit_callbacks_response:
  "status (emit_callbacks pageID cbs w) = status w
   \<and> written (emit_callbacks pageID cbs w) = written w"
proof (induction cbs arbitrary: w)
  case Nil
  then show ?case by simp
next
  case (Cons c cbs)
  then show ?case by (cases c) (simp_all add: emitEvent_def)
qed

lemma reached_Cons:
  "reached (p # ps)
     = (if no_nil (page_Callbacks p) then map (Pair p) (page_Callbacks p) @ reached ps
        else map (Pair p) (takeWhile (\<lambda>c. c \<noteq> None) (page_Callbacks p)))"
proof (cases "no_nil (page_Callbacks p)")
  case True
  have "snd x \<noteq> None" if "x \<in> set (map (Pair p) (page_Callbacks p))" for x
  proof -
    from that have "snd x \<in> set (page_Callbacks p)" by auto
    with True show ?thesis unfolding no_nil_iff by metis
  qed
  then have "takeWhile (\<lambda>pc. snd pc \<noteq> None)
        (map (Pair p) (page_Callbacks p) @ in_array_order ps)
      = map (Pair p) (page_Callbacks p)
        @ takeWhile (\<lambda>pc. snd pc \<noteq> None) (in_array_order ps)"
    by (rule takeWhile_append2)
  then show ?thesis
    using True by (simp add: reached_def in_array_order_def del: not_None_eq)
next
  case False
  then have "None \<in> set (page_Callbacks p)" by (simp add: no_nil_iff)
  then have "(p, None) \<in> set (map (Pair p) (page_Callbacks p))"
      "\<not> snd (p, None :: callback option) \<noteq> None"
    by auto
  then have "takeWhile (\<lambda>pc. snd pc \<noteq> None)
        (map (Pair p) (page_Callbacks p) @ in_array_order ps)
      = takeWhile (\<lambda>pc. snd pc \<noteq> None) (map (Pair p) (page_Callbacks p))"
    by (rule takeWhile_append1)
  with False show ?thesis
    by (simp add: reached_def in_array_order_def takeWhile_map comp_def)
qed

lemma no_nil_takeWhile: "no_nil cbs \<Longrightarrow> takeWhile (\<lambda>c. c \<noteq> None) cbs = cbs"
  by (induction cbs) (simp_all add: no_nil_def)

lemma events_of_one_page:
  "[f p' cb. (p', Some cb) \<leftarrow> map (Pair p) cbs] = [f p cb. Some cb \<leftarrow> cbs]"
  by (induction cbs) (auto split: option.splits)

lemma events_reached_Cons:
  "[f p' cb. (p', Some cb) \<leftarrow> reached (p # ps)]
     = [f p cb. Some cb \<leftarrow> takeWhile (\<lambda>c. c \<noteq> None) (page_Callbacks p)]
       @ (if no_nil (page_Callbacks p) then [f p' cb. (p', Some cb) \<leftarrow> reached ps] else [])"
proof (cases "no_nil (page_Callbacks p)")
  case True
  then show ?thesis
    using events_of_one_page [of f p "page_Callbacks p"]
    by (simp add: reached_Cons no_nil_takeWhile del: not_None_eq)
next
  case False
  then show ?thesis
    using events_of_one_page [of f p "takeWhile (\<lambda>c. c \<noteq> None) (page_Callbacks p)"]
    by (simp add: reached_Cons del: not_None_eq)
qed

text \<open>The outer loop, for any list of entries.\<close>

lemma emit_pages_events:
  "\<not> panicked w \<Longrightarrow>
     events (emit_pages ps w)
       = events w @ [callback_Event cb (page_ID p). (p, Some cb) \<leftarrow> reached ps]"
proof (induction ps arbitrary: w)
  case Nil
  then show ?case by (simp add: reached_def in_array_order_def)
next
  case (Cons p ps)
  show ?case
  proof (cases "no_nil (page_Callbacks p)")
    case True
    with Cons.prems have "\<not> panicked (emit_callbacks (page_ID p) (page_Callbacks p) w)"
      by (simp add: emit_callbacks_panicked)
    with Cons.IH [of "emit_callbacks (page_ID p) (page_Callbacks p) w"] True show ?thesis
      using events_reached_Cons [of "\<lambda>p cb. callback_Event cb (page_ID p)" p ps]
      by (simp add: Let_def emit_callbacks_events del: not_None_eq)
  next
    case False
    with Cons.prems have "panicked (emit_callbacks (page_ID p) (page_Callbacks p) w)"
      by (simp add: emit_callbacks_panicked)
    with False show ?thesis
      using events_reached_Cons [of "\<lambda>p cb. callback_Event cb (page_ID p)" p ps]
      by (simp add: Let_def emit_callbacks_events del: not_None_eq)
  qed
qed

lemma emit_pages_panicked:
  "\<not> panicked w \<Longrightarrow>
     panicked (emit_pages ps w) = (\<not> list_all (\<lambda>p. no_nil (page_Callbacks p)) ps)"
proof (induction ps arbitrary: w)
  case Nil
  then show ?case by simp
next
  case (Cons p ps)
  then show ?case by (simp add: Let_def emit_callbacks_panicked)
qed

lemma emit_pages_response:
  "status (emit_pages ps w) = status w \<and> written (emit_pages ps w) = written w"
proof (induction ps arbitrary: w)
  case Nil
  then show ?case by simp
next
  case (Cons p ps)
  then show ?case by (simp add: Let_def emit_callbacks_response)
qed

lemma reached_all:
  "list_all (\<lambda>p. no_nil (page_Callbacks p)) ps \<Longrightarrow> reached ps = in_array_order ps"
  by (induction ps) (simp_all add: reached_Cons, simp_all add: reached_def in_array_order_def)

text \<open>
  The whole exchange of a POST request whose body decodes, whatever the messaging lists
  hold: the events are those of the callbacks reached; without a \<^verbatim>\<open>null\<close> the
  response is 200 with an empty body, and with one the handler has panicked and has
  written nothing.
\<close>

lemma handleCallbacks_exchange:
  assumes "RequestBody r = Inr body" and "unmarshal body = Inr cbs"
  shows "handleCallbacks unmarshal wh r fresh
     = \<lparr>events = [callback_Event cb (page_ID p). (p, Some cb) \<leftarrow> reached (Pages cbs)],
        status = (if list_all (\<lambda>p. no_nil (page_Callbacks p)) (Pages cbs) then Some 200
                  else None),
        written = [],
        panicked = (\<not> list_all (\<lambda>p. no_nil (page_Callbacks p)) (Pages cbs))\<rparr>"
proof -
  have fresh: "\<not> panicked fresh" "events fresh = []" "status fresh = None" "written fresh = []"
    by (simp_all add: fresh_def)
  let ?w = "emit_pages (Pages cbs) fresh"
  have w: "events ?w = [callback_Event cb (page_ID p). (p, Some cb) \<leftarrow> reached (Pages cbs)]"
      "panicked ?w = (\<not> list_all (\<lambda>p. no_nil (page_Callbacks p)) (Pages cbs))"
      "status ?w = None" "written ?w = []"
    using emit_pages_events [OF fresh(1), of "Pages cbs"]
      emit_pages_panicked [OF fresh(1), of "Pages cbs"]
      emit_pages_response [of "Pages cbs" fresh] fresh
    by simp_all
  have "handleCallbacks unmarshal wh r fresh
      = (if panicked ?w then ?w else ?w\<lparr>status := Some 200\<rparr>)"
    using assms w(3) by (simp add: handleCallbacks_def Let_def WriteHeader_def)
  with w show ?thesis by (cases ?w) auto
qed

text \<open>
  C1. The event of a callback is of the kind that the first present field in the order
  message, delivery, read, postback, account linking, opt-in, referral stands for
  (\<open>kind_of_callback_Event\<close>), and the loop emits the events in the order of the arrays
  (\<open>handleCallbacks_exchange\<close>). But it does not emit one for every callback: a
  \<^verbatim>\<open>null\<close> in a messaging list decodes to a nil \<^verbatim>\<open>*callback\<close>, on which
  \<^verbatim>\<open>cb.Event\<close> panics. For the messaging list \<^verbatim>\<open>[A, null, B]\<close> the listener gets
  the event of A only: B, a callback like any other, gets none, and no response is
  written.
\<close>

theorem null_entry_stops_the_dispatch:
  "WebhookHandler
     (\<lambda>body. Inr \<lparr>Object = ''page'', Pages =
        [\<lparr>page_ID = ''P1'', page_Timestamp = 100, page_Callbacks =
            [Some (zero_callback\<lparr>cb_Sender_ID := ''U1'', cb_Recipient_ID := ''P1'',
                     cb_Message := Some (zero_MessageReceived\<lparr>mr_MessageID := ''m1'',
                                           mr_Text := ''a''\<rparr>)\<rparr>),
             None,
             Some (zero_callback\<lparr>cb_Sender_ID := ''U2'', cb_Recipient_ID := ''P1'',
                     cb_Message := Some (zero_MessageReceived\<lparr>mr_MessageID := ''m2'',
                                           mr_Text := ''b''\<rparr>)\<rparr>)]\<rparr>]\<rparr>)
     \<lparr>verifyTokens = {}\<rparr>
     \<lparr>Method = ''POST'', Query = (\<lambda>k. []), RequestBody = Inr ''{}''\<rparr> fresh
   = \<lparr>events =
        [MessageReceived (zero_MessageReceived\<lparr>mr_MessageID := ''m1'', mr_Text := ''a'',
           mr_Metadata := \<lparr>PageID = ''P1'', SenderID = ''U1'', RecipientID = ''P1'',
                            Timestamp = 0\<rparr>\<rparr>)],
      status = None, written = [], panicked = True\<rparr>"
  by (simp add: WebhookHandler_def handleCallbacks_def fresh_def emitEvent_def
      callback_Event_def zero_callback_def zero_MessageReceived_def Let_def)

text \<open>
  C4, as the code has it. The metadata of every emitted event has the id of the enclosing
  entry as page id, and the callback's own sender id, recipient id and timestamp: the
  timestamp is the \<^verbatim>\<open>timestamp\<close> field of the callback, and the \<^verbatim>\<open>time\<close> of the
  entry is decoded but not used. This holds for every callback an event is emitted for:
  those reached in the order of the arrays, which are all of them when no messaging list
  holds a \<^verbatim>\<open>null\<close>.
\<close>

theorem metadata_of_emitted_events:
  assumes "Method r = ''POST''" and "RequestBody r = Inr body" and "unmarshal body = Inr cbs"
  shows "map metadata_of (events (WebhookHandler unmarshal wh r fresh))
       = [Some \<lparr>PageID = page_ID p, SenderID = cb_Sender_ID cb,
                RecipientID = cb_Recipient_ID cb, Timestamp = cb_Timestamp cb\<rparr>.
            (p, Some cb) \<leftarrow> reached (Pages cbs)]
     \<and> (list_all (\<lambda>p. no_nil (page_Callbacks p)) (Pages cbs) \<longrightarrow>
          reached (Pages cbs) = in_array_order (Pages cbs))
     \<and> (\<forall>cb pageID.
          metadata_of (callback_Event cb pageID)
            = Some \<lparr>PageID = pageID, SenderID = cb_Sender_ID cb,
                    RecipientID = cb_Recipient_ID cb, Timestamp = cb_Timestamp cb\<rparr>)"
proof -
  have "events (WebhookHandler unmarshal wh r fresh)
      = [callback_Event cb (page_ID p). (p, Some cb) \<leftarrow> reached (Pages cbs)]"
    using handleCallbacks_exchange [of r body unmarshal cbs wh] assms
    by (simp add: WebhookHandler_def)
  moreover have "map metadata_of [callback_Event cb (page_ID p). (p, Some cb) \<leftarrow> xs]
      = [Some \<lparr>PageID = page_ID p, SenderID = cb_Sender_ID cb,
               RecipientID = cb_Recipient_ID cb, Timestamp = cb_Timestamp cb\<rparr>.
           (p, Some cb) \<leftarrow> xs]" for xs :: "(page \<times> callback option) list"
    by (induction xs) (auto simp: metadata_of_callback_Event split: option.splits)
  ultimately show ?thesis
    using reached_all [of "Pages cbs"] metadata_of_callback_Event by simp
qed

theorem metadata_of_emitted_events_witness:
  "map metadata_of (events (WebhookHandler
     (\<lambda>body. Inr \<lparr>Object = ''page'', Pages =
        [\<lparr>page_ID = ''P1'', page_Timestamp = 100, page_Callbacks =
            [Some (zero_callback\<lparr>cb_Sender_ID := ''U1'', cb_Recipient_ID := ''P1'',
                     cb_Timestamp := 150,
                     cb_Message := Some (zero_MessageReceived\<lparr>mr_MessageID := ''m1'',
                                           mr_Text := ''hi''\<rparr>)\<rparr>),
             Some (zero_callback\<lparr>cb_Sender_ID := ''U2'', cb_Recipient_ID := ''P1'',
                     cb_Timestamp := 160\<rparr>)]\<rparr>]\<rparr>)
     \<lparr>verifyTokens = {}\<rparr>
     \<lparr>Method = ''POST'', Query = (\<lambda>k. []), RequestBody = Inr ''{}''\<rparr> fresh))
   = [Some \<lparr>PageID = ''P1'', SenderID = ''U1'', RecipientID = ''P1'', Timestamp = 150\<rparr>,
      Some \<lparr>PageID = ''P1'', SenderID = ''U2'', RecipientID = ''P1'', Timestamp = 160\<rparr>]
   \<and> map metadata_of (events (WebhookHandler
     (\<lambda>body. Inr \<lparr>Object = ''page'', Pages =
        [\<lparr>page_ID = ''P1'', page_Timestamp = 100, page_Callbacks =
            [Some (zero_callback\<lparr>cb_Sender_ID := ''U1'', cb_Recipient_ID := ''P1'',
                     cb_Timestamp := 150,
                     cb_Message := Some (zero_MessageReceived\<lparr>mr_MessageID := ''m1'',
                                           mr_Text := ''hi''\<rparr>)\<rparr>),
             None,
             Some (zero_callback\<lparr>cb_Sender_ID := ''U2'', cb_Recipient_ID := ''P1'',
                     cb_Timestamp := 160\<rparr>)]\<rparr>]\<rparr>)
     \<lparr>verifyTokens = {}\<rparr>
     \<lparr>Method = ''POST'', Query = (\<lambda>k. []), RequestBody = Inr ''{}''\<rparr> fresh))
   = [Some \<lparr>PageID = ''P1'', SenderID = ''U1'', RecipientID = ''P1'', Timestamp = 150\<rparr>]"
  using metadata_of_emitted_events [of
     "\<lparr>Method = ''POST'', Query = (\<lambda>k. []), RequestBody = Inr ''{}''\<rparr>" "''{}''"
     "(\<lambda>body. Inr \<lparr>Object = ''page'', Pages =
        [\<lparr>page_ID = ''P1'', page_Timestamp = 100, page_Callbacks =
            [Some (zero_callback\<lparr>cb_Sender_ID := ''U1'', cb_Recipient_ID := ''P1'',
                     cb_Timestamp := 150,
                     cb_Message := Some (zero_MessageReceived\<lparr>mr_MessageID := ''m1'',
                                           mr_Text := ''hi''\<rparr>)\<rparr>),
             Some (zero_callback\<lparr>cb_Sender_ID := ''U2'', cb_Recipient_ID := ''P1'',
                     cb_Timestamp := 160\<rparr>)]\<rparr>]\<rparr>)"
     "\<lparr>Object = ''page'', Pages =
        [\<lparr>page_ID = ''P1'', page_Timestamp = 100, page_Callbacks =
            [Some (zero_callback\<lparr>cb_Sender_ID := ''U1'', cb_Recipient_ID := ''P1'',
                     cb_Timestamp := 150,
                     cb_Message := Some (zero_MessageReceived\<lparr>mr_MessageID := ''m1'',
                                           mr_Text := ''hi''\<rparr>)\<rparr>),
             Some (zero_callback\<lparr>cb_Sender_ID := ''U2'', cb_Recipient_ID := ''P1'',
                     cb_Timestamp := 160\<rparr>)]\<rparr>]\<rparr>"
     "\<lparr>verifyTokens = {}\<rparr>"]
    metadata_of_emitted_events [of
     "\<lparr>Method = ''POST'', Query = (\<lambda>k. []), RequestBody = Inr ''{}''\<rparr>" "''{}''"
     "(\<lambda>body. Inr \<lparr>Object = ''page'', Pages =
        [\<lparr>page_ID = ''P1'', page_Timestamp = 100, page_Callbacks =
            [Some (zero_callback\<lparr>cb_Sender_ID := ''U1'', cb_Recipient_ID := ''P1'',
                     cb_Timestamp := 150,
                     cb_Message := Some (zero_MessageReceived\<lparr>mr_MessageID := ''m1'',
                                           mr_Text := ''hi''\<rparr>)\<rparr>),
             None,
             Some (zero_callback\<lparr>cb_Sender_ID := ''U2'', cb_Recipient_ID := ''P1'',
                     cb_Timestamp := 160\<rparr>)]\<rparr>]\<rparr>)"
     "\<lparr>Object = ''page'', Pages =
        [\<lparr>page_ID = ''P1'', page_Timestamp = 100, page_Callbacks =
            [Some (zero_callback\<lparr>cb_Sender_ID := ''U1'', cb_Recipient_ID := ''P1'',
                     cb_Timestamp := 150,
                     cb_Message := Some (zero_MessageReceived\<lparr>mr_MessageID := ''m1'',
                                           mr_Text := ''hi''\<rparr>)\<rparr>),
             None,
             Some (zero_callback\<lparr>cb_Sender_ID := ''U2'', cb_Recipient_ID := ''P1'',
                     cb_Timestamp := 160\<rparr>)]\<rparr>]\<rparr>"
     "\<lparr>verifyTokens = {}\<rparr>"]
  by (simp add: no_nil_def reached_def in_array_order_def zero_callback_def)

text \<open>
  C4 as stated takes the timestamp from the entry. For an entry of time 100 holding a
  callback of timestamp 200 the event carries 200, not 100.
\<close>

theorem timestamp_is_the_callbacks_own:
  "events (emit_pages
     [\<lparr>page_ID = ''P1'', page_Timestamp = 100, page_Callbacks =
         [Some (zero_callback\<lparr>cb_Sender_ID := ''U1'', cb_Recipient_ID := ''P1'',
                  cb_Timestamp := 200,
                  cb_Message := Some (zero_MessageReceived\<lparr>mr_MessageID := ''m1'',
                                        mr_Text := ''hi''\<rparr>)\<rparr>)]\<rparr>] fresh)
   = [MessageReceived (zero_MessageReceived\<lparr>mr_MessageID := ''m1'', mr_Text := ''hi'',
        mr_Metadata := \<lparr>PageID = ''P1'', SenderID = ''U1'', RecipientID = ''P1'',
                         Timestamp = 200\<rparr>\<rparr>)]
   \<and> events (emit_pages
     [\<lparr>page_ID = ''P1'', page_Timestamp = 100, page_Callbacks =
         [Some (zero_callback\<lparr>cb_Sender_ID := ''U1'', cb_Recipient_ID := ''P1'',
                  cb_Timestamp := 200,
                  cb_Message := Some (zero_MessageReceived\<lparr>mr_MessageID := ''m1'',
                                        mr_Text := ''hi''\<rparr>)\<rparr>)]\<rparr>] fresh)
   \<noteq> [MessageReceived (zero_MessageReceived\<lparr>mr_MessageID := ''m1'', mr_Text := ''hi'',
        mr_Metadata := \<lparr>PageID = ''P1'', SenderID = ''U1'', RecipientID = ''P1'',
                         Timestamp = 100\<rparr>\<rparr>)]"
  by (simp add: callback_Event_def zero_callback_def zero_MessageReceived_def fresh_def
      emitEvent_def Let_def)

text \<open>
  C7, as the code has it. For a callback that has an \<^verbatim>\<open>account_linking\<close> object and
  none of the fields that come before it in the precedence (message, delivery, read,
  postback): when the status is \<^verbatim>\<open>linked\<close> the event is \<^verbatim>\<open>AccountLinked\<close> with the
  authorization code of the payload; for any other status it is \<^verbatim>\<open>AccountUnlinked\<close>
  with the empty string as authorization code.
\<close>

theorem account_linking_subclassification:
  assumes "cb_Message cb = None" and "cb_Delivery cb = None" and "cb_Read cb = None"
    and "cb_Postback cb = None" and "cb_AccountLinking cb = Some l"
  shows "callback_Event cb pageID
     = (if Status l = ''linked''
        then AccountLinked
               \<lparr>al_Metadata = \<lparr>PageID = pageID, SenderID = cb_Sender_ID cb,
                                RecipientID = cb_Recipient_ID cb, Timestamp = cb_Timestamp cb\<rparr>,
                al_AuthorizationCode = AuthorizationCode l\<rparr>
        else AccountUnlinked
               \<lparr>au_Metadata = \<lparr>PageID = pageID, SenderID = cb_Sender_ID cb,
                                RecipientID = cb_Recipient_ID cb, Timestamp = cb_Timestamp cb\<rparr>,
                au_AuthorizationCode = []\<rparr>)"
  using assms by (simp add: callback_Event_def Let_def)

theorem account_linking_subclassification_witness:
  "callback_Event (zero_callback\<lparr>cb_Sender_ID := ''U1'', cb_Recipient_ID := ''P1'',
       cb_AccountLinking := Some \<lparr>Status = ''linked'', AuthorizationCode = ''code-1''\<rparr>\<rparr>) ''P1''
     = AccountLinked \<lparr>al_Metadata = \<lparr>PageID = ''P1'', SenderID = ''U1'', RecipientID = ''P1'',
                                        Timestamp = 0\<rparr>,
                       al_AuthorizationCode = ''code-1''\<rparr>
   \<and> callback_Event (zero_callback\<lparr>cb_Sender_ID := ''U1'', cb_Recipient_ID := ''P1'',
       cb_AccountLinking := Some \<lparr>Status = ''unlinked'', AuthorizationCode = ''code-1''\<rparr>\<rparr>) ''P1''
     = AccountUnlinked \<lparr>au_Metadata = \<lparr>PageID = ''P1'', SenderID = ''U1'', RecipientID = ''P1'',
                                          Timestamp = 0\<rparr>,
                         au_AuthorizationCode = []\<rparr>"
  using account_linking_subclassification [of
      "zero_callback\<lparr>cb_Sender_ID := ''U1'', cb_Recipient_ID := ''P1'',
       cb_AccountLinking := Some \<lparr>Status = ''linked'', AuthorizationCode = ''code-1''\<rparr>\<rparr>"
      "\<lparr>Status = ''linked'', AuthorizationCode = ''code-1''\<rparr>" "''P1''"]
    account_linking_subclassification [of
      "zero_callback\<lparr>cb_Sender_ID := ''U1'', cb_Recipient_ID := ''P1'',
       cb_AccountLinking := Some \<lparr>Status = ''unlinked'', AuthorizationCode = ''code-1''\<rparr>\<rparr>"
      "\<lparr>Status = ''unlinked'', AuthorizationCode = ''code-1''\<rparr>" "''P1''"]
  by (simp add: zero_callback_def)

text \<open>
  C7 as stated speaks of every callback with an \<^verbatim>\<open>account_linking\<close> object. One that
  also has a \<^verbatim>\<open>message\<close> is a received message, whatever the status says.
\<close>

theorem message_wins_over_account_linking:
  "callback_Event (zero_callback\<lparr>cb_Sender_ID := ''U1'', cb_Recipient_ID := ''P1'',
       cb_Message := Some (zero_MessageReceived\<lparr>mr_MessageID := ''m1'', mr_Text := ''hi''\<rparr>),
       cb_AccountLinking := Some \<lparr>Status = ''linked'', AuthorizationCode = ''code-1''\<rparr>\<rparr>) ''P1''
     = MessageReceived (zero_MessageReceived\<lparr>mr_MessageID := ''m1'', mr_Text := ''hi'',
         mr_Metadata := \<lparr>PageID = ''P1'', SenderID = ''U1'', RecipientID = ''P1'',
                          Timestamp = 0\<rparr>\<rparr>)
   \<and> callback_Event (zero_callback\<lparr>cb_Sender_ID := ''U1'', cb_Recipient_ID := ''P1'',
       cb_Message := Some (zero_MessageReceived\<lparr>mr_MessageID := ''m1'', mr_Text := ''hi''\<rparr>),
       cb_AccountLinking := Some \<lparr>Status = ''linked'', AuthorizationCode = ''code-1''\<rparr>\<rparr>) ''P1''
     \<noteq> AccountLinked \<lparr>al_Metadata = \<lparr>PageID = ''P1'', SenderID = ''U1'', RecipientID = ''P1'',
                                        Timestamp = 0\<rparr>,
                       al_AuthorizationCode = ''code-1''\<rparr>"
  by (simp add: callback_Event_def zero_callback_def Let_def)

section \<open>The webhook: unsupported callbacks\<close>

text \<open>
  When none of the seven payload fields is there, the event is
  \<^verbatim>\<open>CallbackUnsupported\<close> and its \<^verbatim>\<open>Extra\<close> is the field \<^verbatim>\<open>Extra\<close> of the decoded
  struct.
\<close>

lemma unsupported_carries_the_struct_field:
  assumes "cb_Message cb = None" and "cb_Delivery cb = None" and "cb_Read cb = None"
    and "cb_Postback cb = None" and "cb_AccountLinking cb = None" and "cb_OptIn cb = None"
    and "cb_Referral cb = None"
  shows "callback_Event cb pageID
     = CallbackUnsupported
         \<lparr>cu_Metadata = \<lparr>PageID = pageID, SenderID = cb_Sender_ID cb,
                          RecipientID = cb_Recipient_ID cb, Timestamp = cb_Timestamp cb\<rparr>,
          cu_Extra = cb_Extra cb\<rparr>"
  using assms by (simp add: callback_Event_def Let_def)

lemma Extra_name_eq: "Extra_name = ''Extra''"
  by (simp add: Extra_name_def json_name_def)

lemma equal_fold_examples:
  "\<not> equal_fold ''sender'' ''Extra''" "\<not> equal_fold ''recipient'' ''Extra''"
  "\<not> equal_fold ''foo'' ''Extra''" "equal_fold ''extra'' ''Extra''"
  by code_simp+

text \<open>
  C3. The field \<^verbatim>\<open>Extra\<close> is not filled with the unrecognized keys: the tag option
  \<^verbatim>\<open>inline\<close> means nothing to \<^verbatim>\<open>encoding/json\<close>, so the field is named
  \<^verbatim>\<open>Extra\<close> and only a key of that name (in any letter case) is stored in it. For
  the callback object \<^verbatim>\<open>{"sender":{"id":"U1"},"recipient":{"id":"P1"},"foo":"bar"}\<close>
  the field stays nil, and the event is \<^verbatim>\<open>CallbackUnsupported\<close> with a nil
  \<^verbatim>\<open>Extra\<close>: the pair \<^verbatim>\<open>foo\<close>, \<^verbatim>\<open>bar\<close> is lost. The contents of an object under
  the key \<^verbatim>\<open>extra\<close> are what \<^verbatim>\<open>Extra\<close> would hold.
\<close>

theorem unrecognized_keys_are_dropped:
  "Extra_name = ''Extra''
   \<and> unmarshal_Extra [(''sender'', JObject [''id'' \<mapsto> JString ''U1'']),
                      (''recipient'', JObject [''id'' \<mapsto> JString ''P1'']),
                      (''foo'', JString ''bar'')] None = Some None
   \<and> callback_Event (zero_callback\<lparr>cb_Sender_ID := ''U1'', cb_Recipient_ID := ''P1'',
                                     cb_Extra := None\<rparr>) ''P1''
       = CallbackUnsupported
           \<lparr>cu_Metadata = \<lparr>PageID = ''P1'', SenderID = ''U1'', RecipientID = ''P1'',
                            Timestamp = 0\<rparr>,
            cu_Extra = None\<rparr>
   \<and> unmarshal_Extra [(''extra'', JObject [''foo'' \<mapsto> JString ''bar''])] None
       = Some (Some [''foo'' \<mapsto> JString ''bar''])"
  by (simp add: Extra_name_eq equal_fold_examples callback_Event_def zero_callback_def Let_def)

end
